theory Spec2Isabelle
  imports Complex_Main
begin

section \<open>Values, errors and note tables\<close>

text \<open>
  The composer works on pandas data frames of notes. A cell of a frame is a number or a
  missing value (NaN); the model writes a cell as \<open>real option\<close>, with \<open>None\<close> for NaN.
  Floating point numbers are read as the real numbers they denote, so rounding is not part
  of the model; NaN is, because \<open>dropna\<close> and the NaN-skipping reductions of pandas
  decide which rows and values the composer uses.
\<close>

datatype error =
    ValueError string
  | IndexError string
  | KeyError string
  | AttributeError string
  | OverflowError string

type_synonym cell = "real option"

definition py_index :: "nat \<Rightarrow> int \<Rightarrow> error + nat" where
  \<comment> \<open>the position that a Python list or a numpy axis of length \<open>n\<close> gives to index
      \<open>i\<close>: below zero it counts from the end, outside the range it raises\<close>
  "py_index n i =
     (if 0 \<le> i \<and> i < int n then Inr (nat i)
      else if - int n \<le> i \<and> i < 0 then Inr (nat (int n + i))
      else Inl (IndexError ''index out of range''))"

text \<open>
  A row of a note table. The five columns that the composer reads are fields; every other
  column of the frame (\<open>program\<close> in a loaded table, \<open>origin_pitch\<close> and
  \<open>feature_pitch\<close> in a generated one) is kept by name in \<open>extra\<close>. The column
  \<^verbatim>\<open>end\<close> is written \<open>end_t\<close>.
\<close>

record note_event =
  pitch :: cell
  start :: cell
  end_t :: cell
  duration :: cell
  velocity :: cell
  extra :: "(string \<times> cell) list"

type_synonym frame = "note_event list"

type_synonym arr3 = "cell list list list"

subsection \<open>Reductions and arithmetic on cells\<close>

fun present :: "cell list \<Rightarrow> real list" where
  "present [] = []"
| "present (None # xs) = present xs"
| "present (Some x # xs) = x # present xs"

definition col_min :: "cell list \<Rightarrow> cell" where
  \<comment> \<open>\<open>Series.min()\<close>: missing values are skipped; NaN when nothing is left.\<close>
  "col_min xs = (case present xs of [] \<Rightarrow> None | v # vs \<Rightarrow> Some (fold min vs v))"

definition col_max :: "cell list \<Rightarrow> cell" where
  "col_max xs = (case present xs of [] \<Rightarrow> None | v # vs \<Rightarrow> Some (fold max vs v))"

definition min_max_scale :: "cell list \<Rightarrow> cell list" where
  \<comment> \<open>\<open>(col - col.min()) / (col.max() - col.min())\<close>. When the maximum equals the
      minimum every numerator is zero as well and the float division gives NaN.\<close>
  "min_max_scale xs =
     (case (col_min xs, col_max xs) of
        (Some lo, Some hi) \<Rightarrow>
          map (\<lambda>x. case x of
                      None \<Rightarrow> None
                    | Some v \<Rightarrow> if hi - lo = 0 then None else Some ((v - lo) / (hi - lo))) xs
      | _ \<Rightarrow> map (\<lambda>x. None) xs)"

subsection \<open>Frames\<close>

definition notna :: "note_event \<Rightarrow> bool" where
  "notna r \<longleftrightarrow>
     pitch r \<noteq> None \<and> start r \<noteq> None \<and> end_t r \<noteq> None \<and> duration r \<noteq> None \<and>
     velocity r \<noteq> None \<and> list_all (\<lambda>kv. snd kv \<noteq> None) (extra r)"

definition dropna :: "frame \<Rightarrow> frame" where
  "dropna df = filter notna df"

definition assign_pitch :: "frame \<Rightarrow> cell list \<Rightarrow> frame" where
  "assign_pitch df xs = map2 (\<lambda>r x. r\<lparr>pitch := x\<rparr>) df xs"

definition assign_start :: "frame \<Rightarrow> cell list \<Rightarrow> frame" where
  "assign_start df xs = map2 (\<lambda>r x. r\<lparr>start := x\<rparr>) df xs"

definition assign_end :: "frame \<Rightarrow> cell list \<Rightarrow> frame" where
  "assign_end df xs = map2 (\<lambda>r x. r\<lparr>end_t := x\<rparr>) df xs"

definition assign_duration :: "frame \<Rightarrow> cell list \<Rightarrow> frame" where
  "assign_duration df xs = map2 (\<lambda>r x. r\<lparr>duration := x\<rparr>) df xs"

definition assign_velocity :: "frame \<Rightarrow> cell list \<Rightarrow> frame" where
  "assign_velocity df xs = map2 (\<lambda>r x. r\<lparr>velocity := x\<rparr>) df xs"

definition iloc :: "frame \<Rightarrow> nat \<Rightarrow> nat \<Rightarrow> frame" where
  \<comment> \<open>\<open>df.iloc[a:b, :]\<close> for \<open>0 \<le> a\<close>.\<close>
  "iloc df a b = take (b - a) (drop a df)"

definition feature_values :: "frame \<Rightarrow> cell list list" where
  \<comment> \<open>\<open>df[["pitch", "start", "duration", "velocity"]].values\<close>\<close>
  "feature_values df = map (\<lambda>r. [pitch r, start r, duration r, velocity r]) df"

section \<open>The preprocessor\<close>

text \<open>
  \<open>__preprocess\<close> copies the frame, drops the rows with a missing value, scales five
  columns, allocates \<open>np.empty((rows - cycle_len, cycle_len, 4))\<close> and fills one window per
  index from \<open>cycle_len\<close> to \<open>rows - 1\<close>. The allocation raises \<open>ValueError\<close> when its
  first dimension is negative. \<open>cycle_len\<close> is a natural number here.
\<close>

definition preprocess :: "frame \<Rightarrow> nat \<Rightarrow> error + arr3" where
  "preprocess midi_df0 cycle_len =
     (let midi_df = dropna midi_df0;
          midi_df = assign_pitch midi_df (min_max_scale (map pitch midi_df));
          midi_df = assign_start midi_df (min_max_scale (map start midi_df));
          midi_df = assign_end midi_df (min_max_scale (map end_t midi_df));
          midi_df = assign_duration midi_df (min_max_scale (map duration midi_df));
          midi_df = assign_velocity midi_df (min_max_scale (map velocity midi_df))
      in if length midi_df < cycle_len
         then Inl (ValueError ''negative dimensions are not allowed'')
         else Inr (map (\<lambda>i. feature_values (iloc midi_df (i - cycle_len) i))
                       [cycle_len ..< length midi_df]))"

text \<open>
  The specification's reading of the scaling: a value of a column without missing values,
  against the least and the greatest value of that column.
\<close>

definition normalized :: "real list \<Rightarrow> real \<Rightarrow> real" where
  "normalized col x = (x - Min (set col)) / (Max (set col) - Min (set col))"

definition column :: "(note_event \<Rightarrow> cell) \<Rightarrow> frame \<Rightarrow> real list" where
  "column f df = present (map f df)"

definition non_constant :: "real list \<Rightarrow> bool" where
  "non_constant xs \<longleftrightarrow> (\<exists>x\<in>set xs. \<exists>y\<in>set xs. x \<noteq> y)"

definition scale_cell :: "cell list \<Rightarrow> cell \<Rightarrow> cell" where
  "scale_cell xs x =
     (case (col_min xs, col_max xs) of
        (Some lo, Some hi) \<Rightarrow>
          (case x of None \<Rightarrow> None
                   | Some v \<Rightarrow> if hi - lo = 0 then None else Some ((v - lo) / (hi - lo)))
      | _ \<Rightarrow> None)"

definition scaled_row :: "frame \<Rightarrow> note_event \<Rightarrow> cell list" where
  "scaled_row d r =
     [scale_cell (map pitch d) (pitch r), scale_cell (map start d) (start r),
      scale_cell (map duration d) (duration r), scale_cell (map velocity d) (velocity r)]"

text \<open>
  A table of four notes used to run the preprocessor: the second row has no start time.
\<close>

definition four_rows :: frame where
  "four_rows =
     [\<lparr>pitch = Some 0, start = Some 0, end_t = Some 1, duration = Some 1, velocity = Some 60, extra = [(''program'', Some 0)]\<rparr>,
      \<lparr>pitch = Some 4, start = None, end_t = Some 2, duration = Some 1, velocity = Some 70, extra = [(''program'', Some 0)]\<rparr>,
      \<lparr>pitch = Some 7, start = Some 1, end_t = Some 3, duration = Some 2, velocity = Some 80, extra = [(''program'', Some 0)]\<rparr>,
      \<lparr>pitch = Some 2, start = Some 3, end_t = Some 4, duration = Some 1, velocity = Some 65, extra = [(''program'', Some 0)]\<rparr>]"

section \<open>The bar noise sampler\<close>

text \<open>
  A row of a table given to the sampler, with the columns the sampler reads: \<open>program\<close>,
  \<open>pitch\<close>, \<open>start\<close> and \<^verbatim>\<open>end\<close>. Pitch and program are integers, as a
  loaded table has them; start and end are numbers.
\<close>

record bar_note =
  program :: int
  note_pitch :: int
  note_start :: real
  note_end :: real

type_synonym bar_table = "bar_note list"

text \<open>
  The attributes of a \<open>BarNoiseSampler\<close>. Batch size and sequence length are natural
  numbers here.
\<close>

record bar_noise_sampler =
  midi_df_list :: "bar_table list"
  batch_size :: nat
  seq_len :: nat
  channel :: nat
  program_list :: "int list"
  time_fraction :: real
  min_pitch :: int
  max_pitch :: int
  dim :: int

definition init ::
  "bar_table list \<Rightarrow> nat \<Rightarrow> nat \<Rightarrow> real \<Rightarrow> int \<Rightarrow> int \<Rightarrow> bar_noise_sampler" where
  \<comment> \<open>\<open>__init__\<close>. \<open>list(set(program_list))\<close> keeps one copy of every program, in an order
      Python does not fix; here it is the order of first occurrence.\<close>
  "init tables bs sl tf lo hi =
     (let programs = remdups (concat (map (\<lambda>t. remdups (map program t)) tables))
      in \<lparr>midi_df_list = tables, batch_size = bs, seq_len = sl, channel = length programs,
          program_list = programs, time_fraction = tf, min_pitch = lo, max_pitch = hi,
          dim = hi - lo\<rparr>)"

text \<open>
  The process-wide random source as the sampler uses it: a sequence of integers behind
  \<open>np.random.randint\<close> and a sequence of numbers in \<open>[0, 1)\<close> behind
  \<open>np.random.uniform\<close>, each read at the position the state holds.
\<close>

record bar_source =
  randint_draw :: "nat \<Rightarrow> nat"
  uniform_draw :: "nat \<Rightarrow> real"

record bar_state =
  int_pos :: nat
  uni_pos :: nat

fun set_bits :: "int \<Rightarrow> int \<Rightarrow> bar_table \<Rightarrow> real list \<Rightarrow> error + real list" where
  \<comment> \<open>the loop of \<open>__convert_into_feature\<close> over the rows of \<open>df\<close>\<close>
  "set_bits lo hi [] arr = Inr arr"
| "set_bits lo hi (r # rs) arr =
     (if note_pitch r < hi - 1
      then (case py_index (length arr) (note_pitch r - lo) of
              Inl e \<Rightarrow> Inl e
            | Inr j \<Rightarrow> set_bits lo hi rs (arr[j := 1]))
      else set_bits lo hi rs arr)"

definition convert_into_feature :: "bar_noise_sampler \<Rightarrow> bar_table \<Rightarrow> error + real list" where
  "convert_into_feature s df =
     set_bits (min_pitch s) (max_pitch s) df (replicate (nat (dim s)) 0)"

fun collect :: "(error + 'a) list \<Rightarrow> error + 'a list" where
  \<comment> \<open>the results of a loop body, up to the first exception\<close>
  "collect [] = Inr []"
| "collect (x # xs) =
     (case x of
        Inl e \<Rightarrow> Inl e
      | Inr y \<Rightarrow> (case collect xs of Inl e \<Rightarrow> Inl e | Inr ys \<Rightarrow> Inr (y # ys)))"

definition column_min :: "real list \<Rightarrow> real option" where
  \<comment> \<open>\<open>Series.min()\<close>: NaN, written \<open>None\<close>, on an empty column\<close>
  "column_min xs = (case xs of [] \<Rightarrow> None | x # ys \<Rightarrow> Some (fold min ys x))"

definition column_max :: "real list \<Rightarrow> real option" where
  "column_max xs = (case xs of [] \<Rightarrow> None | x # ys \<Rightarrow> Some (fold max ys x))"

definition selected_table :: "bar_noise_sampler \<Rightarrow> bar_source \<Rightarrow> bar_state \<Rightarrow> int \<Rightarrow> bar_table" where
  \<comment> \<open>\<open>midi_df_list[np.random.randint(0, len(midi_df_list))]\<close>, filtered to the program\<close>
  "selected_table s src st program_key =
     filter (\<lambda>r. program r = program_key)
       (midi_df_list s ! (randint_draw src (int_pos st) mod length (midi_df_list s)))"

definition offset ::
  "bar_noise_sampler \<Rightarrow> bar_source \<Rightarrow> bar_state \<Rightarrow> bar_table \<Rightarrow> error + real" where
  \<comment> \<open>\<open>np.random.uniform(low, high)\<close> is \<open>low + (high - low) * u\<close>; it refuses a range
      that is not finite, which is the case when a bound is the NaN of an empty column\<close>
  "offset s src st df =
     (case (column_min (map note_start df), column_max (map note_end df)) of
        (Some lo, Some hi) \<Rightarrow>
          (let low = lo;
               high = hi - real (seq_len s) * time_fraction s
           in Inr (low + (high - low) * uniform_draw src (uni_pos st)))
      | _ \<Rightarrow> Inl (OverflowError ''Range exceeds valid bounds''))"

definition bar_rows :: "bar_noise_sampler \<Rightarrow> bar_table \<Rightarrow> real \<Rightarrow> nat \<Rightarrow> bar_table" where
  \<comment> \<open>the two filters of the loop over \<open>seq\<close>\<close>
  "bar_rows s df row q =
     filter (\<lambda>r. row + (real q + 1) * time_fraction s < note_end r)
       (filter (\<lambda>r. note_start r < row + real q * time_fraction s) df)"

definition generate_channel ::
  "bar_noise_sampler \<Rightarrow> bar_source \<Rightarrow> bar_state \<Rightarrow> int \<Rightarrow> (error + real list list) \<times> bar_state" where
  \<comment> \<open>the body of the loop over the programs: the slot \<open>sampled_arr[batch, i]\<close>\<close>
  "generate_channel s src st program_key =
     (if midi_df_list s = [] then (Inl (ValueError ''low >= high''), st)
      else (let df = selected_table s src st program_key;
                st1 = st\<lparr>int_pos := int_pos st + 1\<rparr>
            in if length df < seq_len s
               then (Inr (replicate (seq_len s) (replicate (nat (dim s)) 0)), st1)
               else (case offset s src st1 df of
                       Inl e \<Rightarrow> (Inl e, st1)
                     | Inr row \<Rightarrow>
                         (collect (map (\<lambda>q. convert_into_feature s (bar_rows s df row q))
                                       [0 ..< seq_len s]),
                          st1\<lparr>uni_pos := uni_pos st1 + 1\<rparr>))))"

fun generate_channels ::
  "bar_noise_sampler \<Rightarrow> bar_source \<Rightarrow> bar_state \<Rightarrow> int list \<Rightarrow>
     (error + real list list list) \<times> bar_state" where
  "generate_channels s src st [] = (Inr [], st)"
| "generate_channels s src st (program_key # keys) =
     (case generate_channel s src st program_key of
        (Inl e, st1) \<Rightarrow> (Inl e, st1)
      | (Inr c, st1) \<Rightarrow>
          (case generate_channels s src st1 keys of
             (Inl e, st2) \<Rightarrow> (Inl e, st2)
           | (Inr cs, st2) \<Rightarrow> (Inr (c # cs), st2)))"

fun generate_batches ::
  "bar_noise_sampler \<Rightarrow> bar_source \<Rightarrow> bar_state \<Rightarrow> nat \<Rightarrow>
     (error + real list list list list) \<times> bar_state" where
  "generate_batches s src st 0 = (Inr [], st)"
| "generate_batches s src st (Suc n) =
     (case generate_channels s src st (program_list s) of
        (Inl e, st1) \<Rightarrow> (Inl e, st1)
      | (Inr b, st1) \<Rightarrow>
          (case generate_batches s src st1 n of
             (Inl e, st2) \<Rightarrow> (Inl e, st2)
           | (Inr bs, st2) \<Rightarrow> (Inr (b # bs), st2)))"

definition bar_generate ::
  "bar_noise_sampler \<Rightarrow> bar_source \<Rightarrow> bar_state \<Rightarrow>
     (error + real list list list list) \<times> bar_state" where
  \<comment> \<open>\<open>BarNoiseSampler.generate\<close>; \<open>np.zeros\<close> refuses a negative dimension\<close>
  "bar_generate s src st =
     (if dim s < 0 then (Inl (ValueError ''negative dimensions are not allowed''), st)
      else generate_batches s src st (batch_size s))"

text \<open>
  What the sampler computes at one position, for the statements below: a note sounds
  through sub-interval \<open>q\<close> when it starts before the sub-interval and ends after it,
  and \<open>slot_bit\<close> is the value the code leaves at position \<open>j\<close> of the pitch vector.
  \<open>inside_sub_interval\<close> is the specification's reading, a note that lies within the
  sub-interval. \<open>bar_tensor\<close> is the shape of an output with entries 0 or 1, and
  \<open>indexable\<close> collects what keeps the writes of \<open>__convert_into_feature\<close> in range.
\<close>

definition sounding_through :: "bar_noise_sampler \<Rightarrow> real \<Rightarrow> nat \<Rightarrow> bar_note \<Rightarrow> bool" where
  "sounding_through s row q r \<longleftrightarrow>
     note_start r < row + real q * time_fraction s \<and>
     row + (real q + 1) * time_fraction s < note_end r"

definition slot_bit :: "bar_noise_sampler \<Rightarrow> bar_table \<Rightarrow> real \<Rightarrow> nat \<Rightarrow> nat \<Rightarrow> real" where
  "slot_bit s df row q j =
     (if \<exists>r\<in>set df. sounding_through s row q r \<and>
            note_pitch r < bar_noise_sampler.max_pitch s - 1 \<and>
            py_index (nat (dim s)) (note_pitch r - bar_noise_sampler.min_pitch s) = Inr j
      then 1 else 0)"

definition inside_sub_interval :: "bar_noise_sampler \<Rightarrow> real \<Rightarrow> nat \<Rightarrow> bar_note \<Rightarrow> bool" where
  "inside_sub_interval s row q r \<longleftrightarrow>
     row + real q * time_fraction s \<le> note_start r \<and>
     note_end r \<le> row + (real q + 1) * time_fraction s"

definition bar_tensor :: "real list list list list \<Rightarrow> nat \<Rightarrow> nat \<Rightarrow> nat \<Rightarrow> nat \<Rightarrow> bool" where
  "bar_tensor out b c q d \<longleftrightarrow>
     length out = b \<and>
     list_all (\<lambda>x. length x = c \<and>
       list_all (\<lambda>y. length y = q \<and>
         list_all (\<lambda>v. length v = d \<and> list_all (\<lambda>e. e = 0 \<or> e = 1) v) y) x) out"

definition indexable :: "bar_noise_sampler \<Rightarrow> bool" where
  "indexable s \<longleftrightarrow>
     dim s = bar_noise_sampler.max_pitch s - bar_noise_sampler.min_pitch s \<and> 0 \<le> dim s \<and>
     0 < seq_len s \<and>
     (program_list s \<noteq> [] \<longrightarrow> midi_df_list s \<noteq> []) \<and>
     (\<forall>t\<in>set (midi_df_list s). \<forall>r\<in>set t.
        note_pitch r < bar_noise_sampler.max_pitch s - 1 \<longrightarrow>
        2 * bar_noise_sampler.min_pitch s - bar_noise_sampler.max_pitch s \<le> note_pitch r)"

text \<open>
  A sampler over one table of two notes of program 0: a long note and a short one that
  lies inside the second tenth of a second. The random source always answers 0, so the
  offset is the least start time.
\<close>

definition long_note :: bar_note where
  "long_note = \<lparr>program = 0, note_pitch = 60, note_start = 0, note_end = 1\<rparr>"

definition inner_note :: bar_note where
  "inner_note = \<lparr>program = 0, note_pitch = 62, note_start = 3 / 25, note_end = 9 / 50\<rparr>"

definition bar_demo_sampler :: bar_noise_sampler where
  "bar_demo_sampler = init [[long_note, inner_note]] 1 2 (1 / 10) 60 64"

definition bar_demo_source :: bar_source where
  "bar_demo_source = \<lparr>randint_draw = (\<lambda>k. 0), uniform_draw = (\<lambda>k. 0)\<rparr>"

definition bar_demo_state :: bar_state where
  "bar_demo_state = \<lparr>int_pos = 0, uni_pos = 0\<rparr>"

text \<open>
  Further inputs: long notes of pitch 58 and 55, below the sampler's \<open>min_pitch\<close> of 60,
  a long note of program 1, and a random source whose uniform draws are all one half, so
  that the offset lies in the middle of the admitted range.
\<close>

definition deep_note :: bar_note where
  "deep_note = \<lparr>program = 0, note_pitch = 58, note_start = 0, note_end = 1\<rparr>"

definition low_note :: bar_note where
  "low_note = \<lparr>program = 0, note_pitch = 55, note_start = 0, note_end = 1\<rparr>"

definition other_note :: bar_note where
  "other_note = \<lparr>program = 1, note_pitch = 60, note_start = 0, note_end = 1\<rparr>"

definition half_source :: bar_source where
  "half_source = \<lparr>randint_draw = (\<lambda>k. 0), uniform_draw = (\<lambda>k. 1 / 2)\<rparr>"

section \<open>The composer\<close>

subsection \<open>Numbers and columns\<close>

definition py_mod :: "real \<Rightarrow> real \<Rightarrow> real" where
  \<comment> \<open>Python's \<open>x % m\<close> for a positive \<open>m\<close>: the result has the sign of \<open>m\<close>.\<close>
  "py_mod x m = x - m * of_int \<lfloor>x / m\<rfloor>"

definition py_int :: "real \<Rightarrow> int" where
  \<comment> \<open>\<open>int(x)\<close> and \<open>astype(int)\<close>: truncation toward zero.\<close>
  "py_int x = (if 0 \<le> x then \<lfloor>x\<rfloor> else \<lceil>x\<rceil>)"

definition astype_int :: "cell \<Rightarrow> int" where
  \<comment> \<open>NaN converts to the least 64-bit integer on the usual platforms.\<close>
  "astype_int c = (case c of None \<Rightarrow> - (2 ^ 63) | Some x \<Rightarrow> py_int x)"

text \<open>
  The log of the search is a numpy array of floats that the collaborator fills: an entry
  is a number, an infinity or NaN. \<open>np_le\<close> is the order of the floats that are not NaN,
  \<open>np_minimum\<close> the step of \<open>ndarray.min()\<close>, which answers NaN as soon as one operand
  is NaN, \<open>np_eq\<close> the comparison \<open>==\<close>, false on NaN, and \<open>float_int\<close> is \<open>int(x)\<close>.
\<close>

datatype npfloat = Finite real | PosInf | NegInf | NaN

fun np_le :: "npfloat \<Rightarrow> npfloat \<Rightarrow> bool" where
  "np_le NaN y = False"
| "np_le x NaN = False"
| "np_le NegInf y = True"
| "np_le x PosInf = True"
| "np_le (Finite x) (Finite y) = (x \<le> y)"
| "np_le PosInf y = False"
| "np_le x NegInf = False"

definition np_minimum :: "npfloat \<Rightarrow> npfloat \<Rightarrow> npfloat" where
  "np_minimum a b = (if a = NaN \<or> b = NaN then NaN else if np_le a b then a else b)"

definition np_eq :: "npfloat \<Rightarrow> npfloat \<Rightarrow> bool" where
  "np_eq a b \<longleftrightarrow> a \<noteq> NaN \<and> a = b"

definition float_int :: "npfloat \<Rightarrow> error + int" where
  "float_int x =
     (case x of
        Finite v \<Rightarrow> Inr (py_int v)
      | NaN \<Rightarrow> Inl (ValueError ''cannot convert float NaN to integer'')
      | _ \<Rightarrow> Inl (OverflowError ''cannot convert float infinity to integer''))"

definition cell_add :: "cell \<Rightarrow> cell \<Rightarrow> cell" where
  "cell_add a b =
     (case a of None \<Rightarrow> None | Some x \<Rightarrow> (case b of None \<Rightarrow> None | Some y \<Rightarrow> Some (x + y)))"

definition cell_mul :: "cell \<Rightarrow> cell \<Rightarrow> cell" where
  "cell_mul a b =
     (case a of None \<Rightarrow> None | Some x \<Rightarrow> (case b of None \<Rightarrow> None | Some y \<Rightarrow> Some (x * y)))"

definition cell_mod :: "cell \<Rightarrow> real \<Rightarrow> cell" where
  "cell_mod a m = (case a of None \<Rightarrow> None | Some x \<Rightarrow> Some (py_mod x m))"

definition col_mean :: "cell list \<Rightarrow> cell" where
  \<comment> \<open>\<open>Series.mean()\<close>, missing values skipped.\<close>
  "col_mean xs =
     (case present xs of [] \<Rightarrow> None | v # vs \<Rightarrow> Some (sum_list (v # vs) / real (length (v # vs))))"

definition col_std :: "cell list \<Rightarrow> cell" where
  \<comment> \<open>\<open>Series.std()\<close>: the sample standard deviation, NaN for fewer than two values.\<close>
  "col_std xs =
     (let vs = present xs; n = length vs
      in if n < 2 then None
         else Some (sqrt (sum_list (map (\<lambda>v. (v - sum_list vs / real n)\<^sup>2) vs) / real (n - 1))))"

definition np_normal :: "(nat \<Rightarrow> real) \<Rightarrow> nat \<Rightarrow> cell \<Rightarrow> cell \<Rightarrow> nat \<Rightarrow> cell list" where
  \<comment> \<open>\<open>np.random.normal(loc, scale, size)\<close>: the process-wide source is a sequence \<open>z\<close> of
      standard normal deviates, read from position \<open>pos\<close> on; a draw is \<open>loc + scale * z\<close>.\<close>
  "np_normal z pos loc scale n =
     map (\<lambda>j. cell_add loc (cell_mul scale (Some (z (pos + j))))) [0 ..< n]"

fun set_column :: "string \<Rightarrow> cell \<Rightarrow> (string \<times> cell) list \<Rightarrow> (string \<times> cell) list" where
  \<comment> \<open>\<open>df[name] = ...\<close> on the named columns of a row: replace in place or append.\<close>
  "set_column name v [] = [(name, v)]"
| "set_column name v ((k, x) # kvs) =
     (if k = name then (k, v) # kvs else (k, x) # set_column name v kvs)"

subsection \<open>Sorting a generated frame\<close>

definition cell_le :: "cell \<Rightarrow> cell \<Rightarrow> bool" where
  \<comment> \<open>the order of \<open>sort_values\<close> on one column: numbers ascending, NaN last\<close>
  "cell_le a b = (case b of None \<Rightarrow> True | Some y \<Rightarrow> (case a of None \<Rightarrow> False | Some x \<Rightarrow> x \<le> y))"

definition row_le :: "note_event \<Rightarrow> note_event \<Rightarrow> bool" where
  \<comment> \<open>\<open>by=["start", "end"]\<close>: by start, then by end\<close>
  "row_le r s \<longleftrightarrow>
     (if start r = start s then cell_le (end_t r) (end_t s) else cell_le (start r) (start s))"

fun insort_row :: "note_event \<Rightarrow> frame \<Rightarrow> frame" where
  "insort_row r [] = [r]"
| "insort_row r (x # xs) = (if row_le r x then r # x # xs else x # insort_row r xs)"

definition sort_values :: "frame \<Rightarrow> frame" where
  \<comment> \<open>a stable sort: rows with equal keys keep their order\<close>
  "sort_values df = foldr insort_row df []"

subsection \<open>Collaborators, store and state\<close>

text \<open>
  The collaborators the composer is given: the random source, the twelve-tone generator,
  the generative model built by \<open>create_rbm\<close> and the search built by
  \<open>create_annealing\<close>. The twelve-tone generator and the search are functions of their
  arguments and, for the generator, of the number of earlier calls; they always return.
  A parameter slot the cycle loop never wrote holds whatever \<open>np.empty\<close> left there; it
  is \<open>None\<close> here.
\<close>

record 'r collaborators =
  normal_z :: "nat \<Rightarrow> real"
  twelve_tone :: "nat \<Rightarrow> nat \<Rightarrow> int \<Rightarrow> int list"
  create_rbm :: "nat \<Rightarrow> nat \<Rightarrow> real \<Rightarrow> 'r"
  rbm_learn :: "'r \<Rightarrow> arr3 \<Rightarrow> nat \<Rightarrow> nat \<Rightarrow> 'r"
  rbm_inference :: "'r \<Rightarrow> arr3 \<Rightarrow> arr3"
  annealing :: "arr3 \<Rightarrow> 'r \<Rightarrow> nat \<Rightarrow> arr3 option list \<Rightarrow> nat \<Rightarrow> npfloat list list"

text \<open>
  Data frames are objects shared by reference: \<open>learn\<close> keeps the caller's frame, and
  \<open>__generate\<close> updates the arrays behind its columns, because the array that
  \<open>midi_df["start"].values\<close> returns is the column's own storage (pandas without
  copy-on-write) and \<open>+=\<close> on an array works in place. The store maps an address to the
  frame that lives there. \<open>drawn\<close> counts the normal deviates consumed so far and
  \<open>tt_calls\<close> the calls of the twelve-tone generator.
\<close>

record world =
  heap :: "nat \<Rightarrow> frame"
  drawn :: nat
  tt_calls :: nat

text \<open>
  The attributes \<open>learn\<close> sets in its last four statements exist together or not at all.
\<close>

record 'r learned_state =
  observed_shape :: "nat \<times> nat \<times> nat"
  midi_df :: nat
  rbm :: 'r
  inferenced_arr :: arr3

record 'r composer =
  cycle_len :: nat
  epoch :: nat
  batch_size :: nat
  learning_rate :: real
  hidden_num :: nat
  annealing_cycles :: nat
  max_pitch :: "cell option"
  min_pitch :: "cell option"
  learned :: "'r learned_state option"
  predicted_log_arr :: "npfloat list list option"
  generated_df_list :: "frame list option"

definition composer_init :: "nat \<Rightarrow> nat \<Rightarrow> nat \<Rightarrow> real \<Rightarrow> nat \<Rightarrow> nat \<Rightarrow> 'r composer" where
  \<comment> \<open>\<open>__init__\<close>: the six parameters are stored; no attribute of the trained state and
      no result of \<open>compose\<close> exists yet\<close>
  "composer_init L e b rate h cycles =
     \<lparr>cycle_len = L, epoch = e, batch_size = b, learning_rate = rate, hidden_num = h,
      annealing_cycles = cycles, max_pitch = None, min_pitch = None, learned = None,
      predicted_log_arr = None, generated_df_list = None\<rparr>"

subsection \<open>Learning\<close>

definition learn ::
  "'r collaborators \<Rightarrow> 'r composer \<Rightarrow> world \<Rightarrow> nat \<Rightarrow> error option \<times> 'r composer \<times> world" where
  \<comment> \<open>\<open>learn(midi_df)\<close> with the frame at address \<open>a\<close>; the first component is the
      exception raised, if any.\<close>
  "learn ext c w a =
     (let c = c\<lparr>max_pitch := Some (col_max (map pitch (heap w a))),
                min_pitch := Some (col_min (map pitch (heap w a)))\<rparr>;
          w = w\<lparr>heap := (heap w)
                 (a := assign_pitch (heap w a) (map (\<lambda>p. cell_mod p 12) (map pitch (heap w a))))\<rparr>
      in case preprocess (heap w a) (cycle_len c) of
           Inl e \<Rightarrow> (Some e, c, w)
         | Inr observed_arr \<Rightarrow>
             (let r = create_rbm ext 4 (hidden_num c) (learning_rate c);
                  r = rbm_learn ext r observed_arr (epoch c) (batch_size c);
                  inferenced = rbm_inference ext r observed_arr
              in (None,
                  c\<lparr>learned := Some \<lparr>observed_shape = (length observed_arr, cycle_len c, 4),
                                      midi_df = a, rbm = r, inferenced_arr = inferenced\<rparr>\<rparr>,
                  w)))"

subsection \<open>Generating a candidate\<close>

definition clamp_negative :: "real \<Rightarrow> cell \<Rightarrow> cell" where
  \<comment> \<open>\<open>duration_arr[duration_arr < 0] = m\<close>, one element\<close>
  "clamp_negative m d = (case d of None \<Rightarrow> None | Some x \<Rightarrow> if x < 0 then Some m else Some x)"

definition candidate_row :: "int \<Rightarrow> cell \<Rightarrow> cell \<Rightarrow> int \<Rightarrow> cell \<Rightarrow> note_event" where
  \<comment> \<open>one row of \<open>generated_df\<close> from the columns of \<open>np.c_[...]\<close>, after the start times
      are shifted by \<open>shift\<close>, \<open>end\<close> is added and the pitch is reduced\<close>
  "candidate_row p s d v shift =
     \<lparr>pitch = Some (py_mod (real_of_int p) 12),
      start = cell_add s shift,
      end_t = cell_add (cell_add s shift) d,
      duration = d,
      velocity = Some (real_of_int v),
      extra = [(''origin_pitch'', Some (real_of_int p))]\<rparr>"

definition generate ::
  "'r collaborators \<Rightarrow> world \<Rightarrow> nat \<Rightarrow> int \<Rightarrow> (error + frame) \<times> world" where
  \<comment> \<open>\<open>__generate(midi_df, octave)\<close> with the frame at address \<open>a\<close>\<close>
  "generate ext w a octave =
     (let n = length (heap w a);
          start_arr = map2 cell_add (map start (heap w a))
                        (np_normal (normal_z ext) (drawn w) (Some (1 / 100)) (Some (1 / 100)) n);
          w = w\<lparr>heap := (heap w)(a := assign_start (heap w a) start_arr), drawn := drawn w + n\<rparr>;
          duration_arr = map2 cell_add (map duration (heap w a))
                           (np_normal (normal_z ext) (drawn w) (Some (1 / 100)) (Some (1 / 100)) n);
          w = w\<lparr>heap := (heap w)(a := assign_duration (heap w a) duration_arr),
                drawn := drawn w + n\<rparr>
      in case filter (\<lambda>d. 0 < d) (present duration_arr) of
           [] \<Rightarrow> (Inl (ValueError ''zero-size array to reduction operation minimum''), w)
         | p # ps \<Rightarrow>
             (let duration_arr = map (clamp_negative (fold min ps p)) duration_arr;
                  w = w\<lparr>heap := (heap w)(a := assign_duration (heap w a) duration_arr)\<rparr>;
                  velocity_arr = np_normal (normal_z ext) (drawn w)
                                   (col_mean (map velocity (heap w a)))
                                   (col_std (map velocity (heap w a))) n;
                  w = w\<lparr>drawn := drawn w + n\<rparr>;
                  pitch_arr = take n (twelve_tone ext (tt_calls w) n octave);
                  w = w\<lparr>tt_calls := tt_calls w + 1\<rparr>;
                  velocity_arr = map astype_int velocity_arr
              in if length pitch_arr \<noteq> n
                 then (Inl (ValueError ''all the input array dimensions must match''), w)
                 else (let shift = cell_mul (col_min start_arr) (Some (- 1));
                           generated_df =
                             map (\<lambda>i. candidate_row (pitch_arr ! i) (start_arr ! i)
                                         (duration_arr ! i) (velocity_arr ! i) shift) [0 ..< n]
                       in (Inr (dropna (sort_values generated_df)), w))))"

subsection \<open>Composing\<close>

fun compose_loop ::
  "'r collaborators \<Rightarrow> nat \<Rightarrow> nat \<times> nat \<times> nat \<Rightarrow> nat \<Rightarrow> int \<Rightarrow> nat \<Rightarrow> world \<Rightarrow>
     (error + frame list \<times> arr3 option list) \<times> world" where
  \<comment> \<open>the cycle loop with \<open>k\<close> cycles left; it returns \<open>generated_df_list\<close> and
      \<open>params_arr\<close>, in the order of the cycles\<close>
  "compose_loop ext L shape a octave 0 w = (Inr ([], []), w)"
| "compose_loop ext L shape a octave (Suc k) w =
     (case generate ext w a octave of
        (Inl e, w1) \<Rightarrow> (Inl e, w1)
      | (Inr generated_df, w1) \<Rightarrow>
          (case preprocess generated_df L of
             Inl e \<Rightarrow> (Inl e, w1)
           | Inr test_arr \<Rightarrow>
               (case compose_loop ext L shape a octave k w1 of
                  (Inl e, w2) \<Rightarrow> (Inl e, w2)
                | (Inr (dfs, params), w2) \<Rightarrow>
                    (Inr (generated_df # dfs,
                          (if fst shape < length test_arr then Some (take (fst shape) test_arr)
                           else if length test_arr < fst shape then None
                           else Some test_arr) # params),
                     w2))))"

definition select_optimum :: "npfloat list list \<Rightarrow> nat \<Rightarrow> error + nat" where
  \<comment> \<open>\<open>int(log[log[:, 5] == log[:, 5].min()][0][4])\<close> as a position in a list of \<open>n\<close>
      candidates: the column of scores, its minimum, the records whose score equals it,
      the first of them, its column 4 as an integer, and that integer as a list index.
      A log without records is taken to have the six columns of the search interface.\<close>
  "select_optimum plog n =
     (if \<exists>r\<in>set plog. length r \<le> 5 then Inl (IndexError ''index 5 is out of bounds for axis 1'')
      else case map (\<lambda>r. r ! 5) plog of
             [] \<Rightarrow> Inl (ValueError ''zero-size array to reduction operation minimum'')
           | s # ss \<Rightarrow>
               (case filter (\<lambda>r. np_eq (r ! 5) (fold (\<lambda>x m. np_minimum m x) ss s)) plog of
                  [] \<Rightarrow> Inl (IndexError ''index 0 is out of bounds for axis 0'')
                | r # rs \<Rightarrow>
                    (case float_int (r ! 4) of
                       Inl e \<Rightarrow> Inl e
                     | Inr k \<Rightarrow> py_index n k)))"

definition restore_pitch :: "frame \<Rightarrow> error + frame" where
  \<comment> \<open>\<open>opt_df["feature_pitch"] = opt_df["pitch"]; opt_df["pitch"] = opt_df["origin_pitch"]\<close>\<close>
  "restore_pitch df =
     (if \<exists>r\<in>set df. map_of (extra r) ''origin_pitch'' = None then Inl (KeyError ''origin_pitch'')
      else Inr (map (\<lambda>r. r\<lparr>pitch := the (map_of (extra r) ''origin_pitch''),
                             extra := set_column ''feature_pitch'' (pitch r) (extra r)\<rparr>) df))"

definition compose ::
  "'r collaborators \<Rightarrow> 'r composer \<Rightarrow> world \<Rightarrow> int \<Rightarrow> (error + frame) \<times> 'r composer \<times> world" where
  "compose ext c w octave =
     (case learned c of
        None \<Rightarrow> (Inl (AttributeError ''_RBMAnnealing__inferenced_arr''), c, w)
      | Some l \<Rightarrow>
          (case compose_loop ext (cycle_len c) (observed_shape l) (midi_df l) octave
                  (annealing_cycles c) w of
             (Inl e, w1) \<Rightarrow> (Inl e, c, w1)
           | (Inr (dfs, params_arr), w1) \<Rightarrow>
               (let plog = annealing ext (inferenced_arr l) (rbm l) (batch_size c) params_arr
                            (annealing_cycles c)
                in case select_optimum plog (length dfs) of
                     Inl e \<Rightarrow> (Inl e, c, w1)
                   | Inr i \<Rightarrow>
                       (case restore_pitch (dfs ! i) of
                          Inl e \<Rightarrow> (Inl e, c, w1)
                        | Inr opt_df \<Rightarrow>
                            (Inr opt_df,
                             c\<lparr>predicted_log_arr := Some plog,
                               generated_df_list := Some (dfs[i := opt_df])\<rparr>,
                             w1)))))"

subsection \<open>Sequences of calls\<close>

text \<open>
  A client that uses one composer only through \<open>learn\<close> and \<open>compose\<close>, and leaves the
  frames it has passed alone: \<open>run\<close> performs a list of calls from a state of the composer
  and the store, going on after a call that raised. \<open>usable_rows\<close> counts the rows of a
  frame that have both a start time and a duration.
\<close>

datatype call = Learn nat | Compose int

fun run :: "'r collaborators \<Rightarrow> call list \<Rightarrow> 'r composer \<times> world \<Rightarrow> 'r composer \<times> world" where
  "run ext [] cw = cw"
| "run ext (Learn a # calls) (c, w) =
     (case learn ext c w a of (e, c1, w1) \<Rightarrow> run ext calls (c1, w1))"
| "run ext (Compose octave # calls) (c, w) =
     (case compose ext c w octave of (r, c1, w1) \<Rightarrow> run ext calls (c1, w1))"


subsection \<open>A small run\<close>

text \<open>
  Two notes at address 0, collaborators that answer with fixed values (every normal deviate
  is 0, so every jitter is 0.01), and a composer with a window length of one and two
  annealing cycles. The search log names candidate 0 with a score of 3, then candidate 1
  with the least score, then candidate 0 with the same score.
\<close>

definition two_notes :: frame where
  "two_notes =
     [\<lparr>pitch = Some 60, start = Some 0, end_t = Some 1, duration = Some 1, velocity = Some 64, extra = [(''program'', Some 0)]\<rparr>,
      \<lparr>pitch = Some 67, start = Some 1, end_t = Some 2, duration = Some 1, velocity = Some 64, extra = [(''program'', Some 0)]\<rparr>]"

definition demo_log :: "npfloat list list" where
  "demo_log =
     [[Finite 0, Finite 0, Finite 0, Finite 0, Finite 0, Finite 3],
      [Finite 0, Finite 0, Finite 0, Finite 0, Finite 1, Finite 2],
      [Finite 0, Finite 0, Finite 0, Finite 0, Finite 0, Finite 2]]"

definition demo_ext :: "unit collaborators" where
  "demo_ext =
     \<lparr>normal_z = (\<lambda>k. 0),
      twelve_tone = (\<lambda>calls n octave. map (\<lambda>i. 12 * octave + int i) [0 ..< n]),
      create_rbm = (\<lambda>visible hidden rate. ()),
      rbm_learn = (\<lambda>r arr count size. r),
      rbm_inference = (\<lambda>r arr. arr),
      annealing = (\<lambda>inferenced r size params cycles. demo_log)\<rparr>"

definition demo_composer :: "unit composer" where
  "demo_composer = composer_init 1 100 10 (1 / 100000) 100 2"

definition demo_world :: world where
  "demo_world = \<lparr>heap = (\<lambda>a. [])(0 := two_notes), drawn = 0, tt_calls = 0\<rparr>"

text \<open>
  The state after \<open>learn\<close> on the two notes, the reference frame as it stands when its
  start times have moved by \<open>jitter\<close> and its durations are \<open>d\<close>, and the candidate
  generated with durations \<open>d\<close>.
\<close>

definition trained_composer :: "unit composer" where
  "trained_composer =
     \<lparr>cycle_len = 1, epoch = 100, batch_size = 10, learning_rate = 1 / 100000, hidden_num = 100,
      annealing_cycles = 2, max_pitch = Some (Some 67), min_pitch = Some (Some 60),
      learned = Some \<lparr>observed_shape = (1, 1, 4), midi_df = 0, rbm = (),
                      inferenced_arr = [[[Some 0, Some 0, None, None]]]\<rparr>,
      predicted_log_arr = None, generated_df_list = None\<rparr>"

definition reference_frame :: "real \<Rightarrow> real \<Rightarrow> frame" where
  "reference_frame jitter d =
     [\<lparr>pitch = Some 0, start = Some jitter, end_t = Some 1, duration = Some d, velocity = Some 64, extra = [(''program'', Some 0)]\<rparr>,
      \<lparr>pitch = Some 7, start = Some (1 + jitter), end_t = Some 2, duration = Some d, velocity = Some 64, extra = [(''program'', Some 0)]\<rparr>]"

definition demo_candidate :: "real \<Rightarrow> frame" where
  "demo_candidate d =
     [\<lparr>pitch = Some 0, start = Some 0, end_t = Some d, duration = Some d, velocity = Some 64, extra = [(''origin_pitch'', Some 96)]\<rparr>,
      \<lparr>pitch = Some 1, start = Some 1, end_t = Some (1 + d), duration = Some d, velocity = Some 64, extra = [(''origin_pitch'', Some 97)]\<rparr>]"

definition trained_world :: "real \<Rightarrow> real \<Rightarrow> nat \<Rightarrow> nat \<Rightarrow> world" where
  "trained_world jitter d n k =
     \<lparr>heap = (\<lambda>a. [])(0 := reference_frame jitter d), drawn = n, tt_calls = k\<rparr>"

text \<open>
  Further inputs. In the first the third normal deviate is \<open>-2\<close>, so the jitter added
  to the first duration is \<open>-0.01\<close>, and the first note lasts \<open>0.01\<close>. The second is
  a composer with a window length of zero and a table of two notes without start times;
  \<open>unstarted_world p1 p2 d n k\<close> is the store when the pitches of that table are
  \<open>p1\<close> and \<open>p2\<close> and its durations are \<open>d\<close>, and \<open>windowless_trained\<close> the
  composer after \<open>learn\<close> on it.
\<close>

definition short_note_world :: world where
  "short_note_world =
     \<lparr>heap = (\<lambda>a. [])
        (0 := [\<lparr>pitch = Some 0, start = Some 0, end_t = Some (1 / 100), duration = Some (1 / 100), velocity = Some 64, extra = [(''program'', Some 0)]\<rparr>,
               \<lparr>pitch = Some 7, start = Some 1, end_t = Some (3 / 2), duration = Some (1 / 2), velocity = Some 64, extra = [(''program'', Some 0)]\<rparr>]),
      drawn = 0, tt_calls = 0\<rparr>"

definition low_draw_ext :: "unit collaborators" where
  "low_draw_ext = demo_ext\<lparr>normal_z := (\<lambda>k. if k = 2 then - 2 else 0)\<rparr>"


definition unstarted_frame :: "real \<Rightarrow> real \<Rightarrow> real \<Rightarrow> frame" where
  "unstarted_frame p1 p2 d =
     [\<lparr>pitch = Some p1, start = None, end_t = Some 1, duration = Some d, velocity = Some 64, extra = [(''program'', Some 0)]\<rparr>,
      \<lparr>pitch = Some p2, start = None, end_t = Some 2, duration = Some d, velocity = Some 64, extra = [(''program'', Some 0)]\<rparr>]"

definition unstarted_world :: "real \<Rightarrow> real \<Rightarrow> real \<Rightarrow> nat \<Rightarrow> nat \<Rightarrow> world" where
  "unstarted_world p1 p2 d n k =
     \<lparr>heap = (\<lambda>a. [])(0 := unstarted_frame p1 p2 d), drawn = n, tt_calls = k\<rparr>"


section \<open>Properties of the preprocessor\<close>

lemma min_max_scale_map: "min_max_scale xs = map (scale_cell xs) xs"
  by (auto simp: min_max_scale_def scale_cell_def split: option.splits)

lemma map2_map_self: "map2 f xs (map g xs) = map (\<lambda>x. f x (g x)) xs"
  by (induction xs) auto

lemma fold_min_Min: "fold min vs (v::real) = Min (set (v # vs))"
  by (rule Min.set_eq_fold[symmetric])

lemma fold_max_Max: "fold max vs (v::real) = Max (set (v # vs))"
  by (rule Max.set_eq_fold[symmetric])

lemma col_min_Min: "present xs \<noteq> [] \<Longrightarrow> col_min xs = Some (Min (set (present xs)))"
  by (cases "present xs") (simp_all add: col_min_def fold_min_Min)

lemma col_max_Max: "present xs \<noteq> [] \<Longrightarrow> col_max xs = Some (Max (set (present xs)))"
  by (cases "present xs") (simp_all add: col_max_def fold_max_Max)

lemma set_present: "set (present xs) = {v. Some v \<in> set xs}"
  by (induction xs rule: present.induct) auto

lemma scale_cell_normalized:
  assumes "Some v \<in> set xs" and "non_constant (present xs)"
  shows "scale_cell xs (Some v) = Some (normalized (present xs) v)"
    and "0 \<le> normalized (present xs) v" and "normalized (present xs) v \<le> 1"
proof -
  let ?S = "set (present xs)"
  have vS: "v \<in> ?S" using assms(1) by (simp add: set_present)
  then have ne: "present xs \<noteq> []" by auto
  have fin: "finite ?S" by simp
  obtain a b where ab: "a \<in> ?S" "b \<in> ?S" "a \<noteq> b"
    using assms(2) by (auto simp: non_constant_def)
  have "Min ?S \<le> a" "Min ?S \<le> b" "a \<le> Max ?S" "b \<le> Max ?S"
    using ab fin by auto
  then have lt: "Min ?S < Max ?S" using ab(3) by linarith
  have bounds: "Min ?S \<le> v" "v \<le> Max ?S" using vS fin by auto
  show "scale_cell xs (Some v) = Some (normalized (present xs) v)"
    using lt by (simp add: scale_cell_def col_min_Min[OF ne] col_max_Max[OF ne] normalized_def)
  show "0 \<le> normalized (present xs) v"
    using lt bounds by (simp add: normalized_def)
  show "normalized (present xs) v \<le> 1"
    using lt bounds by (simp add: normalized_def)
qed

lemma assign_scaled:
  "assign_pitch d (min_max_scale (map pitch d)) =
     map (\<lambda>r. r\<lparr>pitch := scale_cell (map pitch d) (pitch r)\<rparr>) d"
  "assign_start d (min_max_scale (map start d)) =
     map (\<lambda>r. r\<lparr>start := scale_cell (map start d) (start r)\<rparr>) d"
  "assign_end d (min_max_scale (map end_t d)) =
     map (\<lambda>r. r\<lparr>end_t := scale_cell (map end_t d) (end_t r)\<rparr>) d"
  "assign_duration d (min_max_scale (map duration d)) =
     map (\<lambda>r. r\<lparr>duration := scale_cell (map duration d) (duration r)\<rparr>) d"
  "assign_velocity d (min_max_scale (map velocity d)) =
     map (\<lambda>r. r\<lparr>velocity := scale_cell (map velocity d) (velocity r)\<rparr>) d"
  unfolding assign_pitch_def assign_start_def assign_end_def assign_duration_def
    assign_velocity_def min_max_scale_map map_map
  by (simp_all add: map2_map_self o_def)

lemma preprocess_rows:
  "preprocess df L =
     (let d = dropna df
      in if length d < L then Inl (ValueError ''negative dimensions are not allowed'')
         else Inr (map (\<lambda>i. map (scaled_row d) (take L (drop (i - L) d))) [L ..< length d]))"
proof -
  have "i - (i - L) = L" if "L \<le> i" for i using that by simp
  then show ?thesis
  unfolding preprocess_def Let_def assign_scaled
  by (simp add: o_def iloc_def feature_values_def scaled_row_def take_map drop_map)
qed

lemma notna_cells:
  assumes "notna r"
  obtains p s d v where "pitch r = Some p" "start r = Some s" "duration r = Some d" "velocity r = Some v"
  using assms by (auto simp: notna_def)

text \<open>
  C5. Let \<open>rows\<close> be the number of rows left after the rows with a missing value are
  dropped. When \<open>rows > cycle_len\<close> and the pitch, start, duration and velocity columns
  of those rows each hold two different values, the preprocessor returns \<open>rows - cycle_len\<close>
  windows, every window has \<open>cycle_len\<close> entries of four numbers, every number lies in
  \<open>[0, 1]\<close>, and entry \<open>j\<close> of window \<open>k\<close> is the scaled (pitch, start, duration,
  velocity) of row \<open>k + j\<close>: window \<open>i - cycle_len\<close> holds rows \<open>i - cycle_len\<close> to
  \<open>i - 1\<close>.
\<close>

theorem preprocess_windows:
  assumes rows: "L < length (dropna df)"
    and np: "non_constant (column pitch (dropna df))"
    and ns: "non_constant (column start (dropna df))"
    and nd: "non_constant (column duration (dropna df))"
    and nv: "non_constant (column velocity (dropna df))"
  shows "\<exists>ws. preprocess df L = Inr ws \<and>
           length ws = length (dropna df) - L \<and>
           (\<forall>w\<in>set ws. length w = L \<and>
              (\<forall>e\<in>set w. length e = 4 \<and> (\<forall>c\<in>set e. \<exists>x. c = Some x \<and> 0 \<le> x \<and> x \<le> 1))) \<and>
           (\<forall>k<length ws. \<forall>j<L.
              \<exists>p s d v. pitch (dropna df ! (k + j)) = Some p \<and> start (dropna df ! (k + j)) = Some s \<and>
                 duration (dropna df ! (k + j)) = Some d \<and> velocity (dropna df ! (k + j)) = Some v \<and>
                 ws ! k ! j =
                   [Some (normalized (column pitch (dropna df)) p),
                    Some (normalized (column start (dropna df)) s),
                    Some (normalized (column duration (dropna df)) d),
                    Some (normalized (column velocity (dropna df)) v)])"
proof -
  define d where "d = dropna df"
  define ws where "ws = map (\<lambda>i. map (scaled_row d) (take L (drop (i - L) d))) [L ..< length d]"
  have L: "L < length d" using rows by (simp add: d_def)
  have run: "preprocess df L = Inr ws"
    using L by (simp add: preprocess_rows ws_def d_def Let_def)
  have len: "length ws = length d - L" by (simp add: ws_def)
  have notna_d: "notna r" if "r \<in> set d" for r using that by (simp add: d_def dropna_def)
  have row: "\<exists>p s du v. pitch r = Some p \<and> start r = Some s \<and> duration r = Some du \<and> velocity r = Some v \<and>
        scaled_row d r = [Some (normalized (column pitch d) p), Some (normalized (column start d) s),
           Some (normalized (column duration d) du), Some (normalized (column velocity d) v)] \<and>
        (\<forall>c\<in>set (scaled_row d r). \<exists>x. c = Some x \<and> 0 \<le> x \<and> x \<le> 1)"
    if r: "r \<in> set d" for r
  proof -
    from notna_d[OF r] obtain p s du v where
      c: "pitch r = Some p" "start r = Some s" "duration r = Some du" "velocity r = Some v"
      by (rule notna_cells)
    have m: "Some p \<in> set (map pitch d)" "Some s \<in> set (map start d)"
      "Some du \<in> set (map duration d)" "Some v \<in> set (map velocity d)"
      using r c by (force simp: image_iff)+
    note P = scale_cell_normalized[OF m(1) np[folded d_def, unfolded column_def]]
    note S = scale_cell_normalized[OF m(2) ns[folded d_def, unfolded column_def]]
    note D = scale_cell_normalized[OF m(3) nd[folded d_def, unfolded column_def]]
    note V = scale_cell_normalized[OF m(4) nv[folded d_def, unfolded column_def]]
    show ?thesis
      using c P S D V by (simp add: scaled_row_def column_def)
  qed
  have win: "ws ! k = map (scaled_row d) (take L (drop k d))" if "k < length ws" for k
    using that by (simp add: ws_def)
  have A: "\<forall>w\<in>set ws. length w = L \<and>
              (\<forall>e\<in>set w. length e = 4 \<and> (\<forall>c\<in>set e. \<exists>x. c = Some x \<and> 0 \<le> x \<and> x \<le> 1))"
  proof
    fix w assume "w \<in> set ws"
    then obtain k where k: "k < length ws" "w = ws ! k" by (auto simp: in_set_conv_nth)
    have w: "w = map (scaled_row d) (take L (drop k d))" using k win by simp
    have "length w = L" using k(1) len by (simp add: w)
    moreover have "length e = 4 \<and> (\<forall>c\<in>set e. \<exists>x. c = Some x \<and> 0 \<le> x \<and> x \<le> 1)" if "e \<in> set w" for e
    proof -
      from that obtain r where r: "r \<in> set (take L (drop k d))" "e = scaled_row d r"
        by (auto simp: w)
      have "r \<in> set d" using r(1) by (meson in_set_dropD in_set_takeD)
      from row[OF this] show ?thesis by (auto simp: r(2) scaled_row_def)
    qed
    ultimately show "length w = L \<and>
              (\<forall>e\<in>set w. length e = 4 \<and> (\<forall>c\<in>set e. \<exists>x. c = Some x \<and> 0 \<le> x \<and> x \<le> 1))" by blast
  qed
  have B: "\<exists>p s du v. pitch (d ! (k + j)) = Some p \<and> start (d ! (k + j)) = Some s \<and>
                 duration (d ! (k + j)) = Some du \<and> velocity (d ! (k + j)) = Some v \<and>
                 ws ! k ! j =
                   [Some (normalized (column pitch d) p), Some (normalized (column start d) s),
                    Some (normalized (column duration d) du), Some (normalized (column velocity d) v)]"
    if "k < length ws" "j < L" for k j
  proof -
    have kj: "k + j < length d" using that len by simp
    have "ws ! k ! j = scaled_row d (d ! (k + j))"
      using that kj len by (simp add: win)
    moreover have "d ! (k + j) \<in> set d" using kj by simp
    ultimately show ?thesis using row by metis
  qed
  show ?thesis
    using run len A B unfolding d_def by blast
qed

lemma dropna_four_rows:
  "dropna four_rows =
     [\<lparr>pitch = Some 0, start = Some 0, end_t = Some 1, duration = Some 1, velocity = Some 60, extra = [(''program'', Some 0)]\<rparr>,
      \<lparr>pitch = Some 7, start = Some 1, end_t = Some 3, duration = Some 2, velocity = Some 80, extra = [(''program'', Some 0)]\<rparr>,
      \<lparr>pitch = Some 2, start = Some 3, end_t = Some 4, duration = Some 1, velocity = Some 65, extra = [(''program'', Some 0)]\<rparr>]"
  by (simp add: four_rows_def dropna_def notna_def)

theorem preprocess_windows_witness:
  "2 < length (dropna four_rows) \<and>
   non_constant (column pitch (dropna four_rows)) \<and>
   non_constant (column start (dropna four_rows)) \<and>
   non_constant (column duration (dropna four_rows)) \<and>
   non_constant (column velocity (dropna four_rows)) \<and>
   (\<exists>ws. preprocess four_rows 2 = Inr ws \<and> length ws = length (dropna four_rows) - 2 \<and>
         (\<forall>w\<in>set ws. length w = 2 \<and>
            (\<forall>e\<in>set w. length e = 4 \<and> (\<forall>c\<in>set e. \<exists>x. c = Some x \<and> 0 \<le> x \<and> x \<le> 1))))"
proof -
  have h1: "2 < length (dropna four_rows)" by (simp add: dropna_four_rows)
  have h2: "non_constant (column pitch (dropna four_rows))"
    by (auto simp: dropna_four_rows non_constant_def column_def)
  have h3: "non_constant (column start (dropna four_rows))"
    by (auto simp: dropna_four_rows non_constant_def column_def)
  have h4: "non_constant (column duration (dropna four_rows))"
    by (auto simp: dropna_four_rows non_constant_def column_def)
  have h5: "non_constant (column velocity (dropna four_rows))"
    by (auto simp: dropna_four_rows non_constant_def column_def)
  from preprocess_windows[OF h1 h2 h3 h4 h5] h1 h2 h3 h4 h5 show ?thesis by blast
qed

text \<open>
  C7 as stated fails: with fewer rows than \<open>cycle_len\<close> the allocation of the result
  raises, here for three usable rows and a window length of four.
\<close>

theorem preprocess_short_counterexample:
  "length (dropna four_rows) \<le> 4 \<and>
   preprocess four_rows 4 = Inl (ValueError ''negative dimensions are not allowed'')"
  by (simp add: preprocess_rows dropna_four_rows)

text \<open>
  C7, amended. When the number of rows left after dropping is at most \<open>cycle_len\<close>, the
  preprocessor returns the empty result (no window) if the two are equal, and raises
  \<open>ValueError\<close> for the negative dimension if there are fewer rows.
\<close>

theorem preprocess_short:
  assumes "length (dropna df) \<le> L"
  shows "preprocess df L =
           (if length (dropna df) = L then Inr []
            else Inl (ValueError ''negative dimensions are not allowed''))"
  using assms by (simp add: preprocess_rows Let_def)

theorem preprocess_short_witness:
  "length (dropna four_rows) \<le> 3 \<and> preprocess four_rows 3 = Inr [] \<and>
   length (dropna four_rows) \<le> 5 \<and>
   preprocess four_rows 5 = Inl (ValueError ''negative dimensions are not allowed'')"
proof -
  have h1: "length (dropna four_rows) \<le> 3" and h2: "length (dropna four_rows) \<le> 5"
    by (simp_all add: dropna_four_rows)
  show ?thesis
    using preprocess_short[OF h1] preprocess_short[OF h2] by (simp add: dropna_four_rows)
qed


section \<open>Properties of the composer\<close>

subsection \<open>Auxiliary facts\<close>

lemma py_mod_of_int: "py_mod (of_int k) 12 = of_int (k mod 12)"
proof -
  have "\<lfloor>(of_int k :: real) / 12\<rfloor> = k div 12"
    using floor_divide_of_int_eq[of k 12, where ?'a = real] by simp
  moreover have "k mod 12 = k - 12 * (k div 12)"
    by (simp add: minus_mult_div_eq_mod)
  ultimately show ?thesis
    by (simp add: py_mod_def)
qed

lemma assign_pitch_map:
  "assign_pitch df (map (\<lambda>r. cell_mod (pitch r) 12) df) =
     map (\<lambda>r. r\<lparr>pitch := cell_mod (pitch r) 12\<rparr>) df"
  by (simp add: assign_pitch_def map2_map_self)

lemma fold_min_le: "fold min xs (x::real) \<le> x" "y \<in> set xs \<Longrightarrow> fold min xs x \<le> y"
  by (simp_all add: fold_min_Min)

lemma fold_min_in: "fold min xs (x::real) \<in> set (x # xs)"
  unfolding fold_min_Min by (rule Min_in) simp_all

lemma length_np_normal [simp]: "length (np_normal z pos loc scale n) = n"
  by (simp add: np_normal_def)

lemma length_assign [simp]:
  "length (assign_start df xs) = min (length df) (length xs)"
  "length (assign_duration df xs) = min (length df) (length xs)"
  by (simp_all add: assign_start_def assign_duration_def)

lemma map2_upd_other:
  assumes "length xs = length df" and "\<And>r x. g (f r x) = g r"
  shows "map g (map2 f df xs) = map g df"
  using assms(1)
proof (induction df arbitrary: xs)
  case Nil
  then show ?case by simp
next
  case (Cons r df)
  then show ?case by (cases xs) (simp_all add: assms(2))
qed

lemma columns_after_assign:
  assumes "length xs = length df"
  shows "map duration (assign_start df xs) = map duration df"
    and "map velocity (assign_start df xs) = map velocity df"
    and "map velocity (assign_duration df xs) = map velocity df"
    and "map start (assign_duration df xs) = map start df"
  unfolding assign_start_def assign_duration_def
  by (rule map2_upd_other[OF assms]; simp)+

lemma map2_upd_same:
  assumes "length xs = length df"
  shows "map2 (\<lambda>r x. r\<lparr>duration := x\<rparr>) df xs = ys \<Longrightarrow> length zs = length df \<Longrightarrow>
         map2 (\<lambda>r x. r\<lparr>duration := x\<rparr>) ys zs = map2 (\<lambda>r x. r\<lparr>duration := x\<rparr>) df zs"
  using assms
proof (induction df arbitrary: xs ys zs)
  case Nil
  then show ?case by simp
next
  case (Cons r df)
  then show ?case by (cases xs; cases zs) auto
qed

lemma assign_duration_twice:
  assumes "length xs = length df" and "length zs = length df"
  shows "assign_duration (assign_duration df xs) zs = assign_duration df zs"
  unfolding assign_duration_def using map2_upd_same[OF assms(1) refl assms(2)] .

lemma generate_run:
  fixes ext :: "'r collaborators" and w :: world and a :: nat
  defines "n \<equiv> length (heap w a)"
  defines "start_arr \<equiv> map2 cell_add (map start (heap w a))
                          (np_normal (normal_z ext) (drawn w) (Some (1 / 100)) (Some (1 / 100)) n)"
  defines "jittered \<equiv> map2 cell_add (map duration (heap w a))
                         (np_normal (normal_z ext) (drawn w + n) (Some (1 / 100)) (Some (1 / 100)) n)"
  shows "generate ext w a octave =
    (case filter (\<lambda>d. 0 < d) (present jittered) of
       [] \<Rightarrow> (Inl (ValueError ''zero-size array to reduction operation minimum''),
              w\<lparr>heap := (heap w)(a := assign_duration (assign_start (heap w a) start_arr) jittered),
                drawn := drawn w + n + n\<rparr>)
     | p # ps \<Rightarrow>
        (let duration_arr = map (clamp_negative (fold min ps p)) jittered;
             w' = w\<lparr>heap := (heap w)
                       (a := assign_duration (assign_start (heap w a) start_arr) duration_arr),
                     drawn := drawn w + n + n + n, tt_calls := tt_calls w + 1\<rparr>;
             velocity_arr = map astype_int
                              (np_normal (normal_z ext) (drawn w + n + n)
                                 (col_mean (map velocity (heap w a)))
                                 (col_std (map velocity (heap w a))) n);
             pitch_arr = take n (twelve_tone ext (tt_calls w) n octave)
         in if length pitch_arr \<noteq> n
            then (Inl (ValueError ''all the input array dimensions must match''), w')
            else (Inr (dropna (sort_values
                        (map (\<lambda>i. candidate_row (pitch_arr ! i) (start_arr ! i)
                                    (duration_arr ! i) (velocity_arr ! i)
                                    (cell_mul (col_min start_arr) (Some (- 1)))) [0 ..< n]))),
                  w')))"
proof -
  have ls: "length start_arr = length (heap w a)" and lj: "length jittered = length (heap w a)"
    by (simp_all add: start_arr_def jittered_def n_def)
  have l1: "length (assign_start (heap w a) start_arr) = n"
    by (simp add: ls n_def)
  have d1: "map duration (assign_start (heap w a) start_arr) = map duration (heap w a)"
    by (rule columns_after_assign(1)[OF ls])
  have lc: "length (map (clamp_negative m) jittered) = length (assign_start (heap w a) start_arr)" for m
    by (simp add: lj ls)
  have lj': "length jittered = length (assign_start (heap w a) start_arr)"
    by (simp add: lj ls)
  have tw: "assign_duration (assign_duration (assign_start (heap w a) start_arr) jittered)
              (map (clamp_negative m) jittered) =
            assign_duration (assign_start (heap w a) start_arr) (map (clamp_negative m) jittered)" for m
    by (rule assign_duration_twice[OF lj' lc])
  have v: "map velocity (assign_duration (assign_start (heap w a) start_arr) xs) = map velocity (heap w a)"
    if "length xs = length (heap w a)" for xs
    using that columns_after_assign(3)[of xs "assign_start (heap w a) start_arr"]
      columns_after_assign(2)[OF ls] by (simp add: ls)
  have v': "map velocity (assign_duration (assign_start (heap w a) start_arr)
                (map (clamp_negative m) jittered)) = map velocity (heap w a)" for m
    by (rule v) (simp add: lj)
  show ?thesis
    unfolding generate_def Let_def
    by (auto simp: n_def[symmetric] start_arr_def[symmetric] l1 d1 jittered_def[symmetric] tw v'
          add.assoc split: list.splits)
qed




lemma np_le_antisym: "np_le a b \<Longrightarrow> np_le b a \<Longrightarrow> a = b"
  by (cases a; cases b) auto



lemma py_index_range: "py_index n i = Inr j \<Longrightarrow> j < n"
  by (auto simp: py_index_def split: if_splits)




subsection \<open>The small run, evaluated\<close>

lemmas demo_defs = demo_ext_def demo_composer_def composer_init_def demo_world_def two_notes_def
  demo_log_def

lemmas cell_defs = cell_add_def cell_mul_def cell_mod_def py_mod_def py_int_def astype_int_def
  col_min_def col_max_def col_mean_def col_std_def clamp_negative_def np_normal_def

lemmas frame_defs = assign_pitch_def assign_start_def assign_duration_def dropna_def notna_def
  candidate_row_def sort_values_def row_le_def cell_le_def scaled_row_def scale_cell_def

lemma learn_demo: "learn demo_ext demo_composer demo_world 0 = (None, trained_composer, trained_world 0 1 0 0)"
  by (simp add: learn_def demo_defs cell_defs frame_defs preprocess_rows Let_def
        trained_composer_def trained_world_def reference_frame_def)

lemma generate_demo_1:
  "generate demo_ext (trained_world 0 1 0 0) 0 8 =
     (Inr (demo_candidate (101 / 100)), trained_world (1 / 100) (101 / 100) 6 1)"
  apply (subst generate_run)
  apply (simp add: demo_defs trained_world_def reference_frame_def cell_defs frame_defs Let_def
      demo_candidate_def del: not_None_eq)
  done




lemmas log_defs = select_optimum_def np_eq_def np_minimum_def float_int_def py_int_def py_index_def

lemma select_optimum_errors:
  "select_optimum [[Finite 0, Finite 0, Finite 0, Finite 0, Finite 0, NaN],
                   [Finite 0, Finite 0, Finite 0, Finite 0, Finite 1, Finite 2]] 2 =
     Inl (IndexError ''index 0 is out of bounds for axis 0'')"
  "select_optimum [[Finite 0, Finite 0, Finite 0, Finite 0, PosInf, NegInf],
                   [Finite 0, Finite 0, Finite 0, Finite 0, Finite 1, Finite 2]] 2 =
     Inl (OverflowError ''cannot convert float infinity to integer'')"
  "select_optimum [[Finite 0, Finite 0, Finite 0, Finite 0, NaN, Finite 1],
                   [Finite 0, Finite 0, Finite 0, Finite 0, Finite 1, Finite 2]] 2 =
     Inl (ValueError ''cannot convert float NaN to integer'')"
  "select_optimum [[Finite 0, Finite 0, Finite 0, Finite 0, Finite (- 2), Finite 1],
                   [Finite 0, Finite 0, Finite 0, Finite 0, Finite 1, Finite 2]] 3 = Inr 1"
  by (simp_all add: log_defs)


lemma learn_demo_fails:
  "learn demo_ext demo_composer demo_world 1 =
     (Some (ValueError ''negative dimensions are not allowed''),
      demo_composer\<lparr>max_pitch := Some None, min_pitch := Some None\<rparr>,
      demo_world\<lparr>heap := (heap demo_world)(1 := [])\<rparr>)"
  by (simp add: learn_def demo_defs cell_defs frame_defs preprocess_rows Let_def)


subsection \<open>Learning\<close>

text \<open>
  C10. \<open>learn\<close> works on the caller's frame itself. When it returns, the frame at the
  caller's address has its pitch column replaced by the pitch modulo 12 and every other
  column as before, no other frame has changed, the original pitches survive only as the
  recorded maximum and minimum, and the composer keeps the caller's address.
\<close>

theorem learn_replaces_pitch:
  assumes "learn ext c w a = (None, c', w')"
  shows "heap w' a = map (\<lambda>r. r\<lparr>pitch := cell_mod (pitch r) 12\<rparr>) (heap w a) \<and>
         (\<forall>b. b \<noteq> a \<longrightarrow> heap w' b = heap w b) \<and>
         max_pitch c' = Some (col_max (map pitch (heap w a))) \<and>
         min_pitch c' = Some (col_min (map pitch (heap w a))) \<and>
         (\<exists>l. learned c' = Some l \<and> midi_df l = a)"
  using assms
  by (auto simp: learn_def Let_def o_def assign_pitch_map split: sum.splits)

theorem learn_replaces_pitch_witness:
  "learn demo_ext demo_composer demo_world 0 = (None, trained_composer, trained_world 0 1 0 0) \<and>
   heap (trained_world 0 1 0 0) 0 =
     map (\<lambda>r. r\<lparr>pitch := cell_mod (pitch r) 12\<rparr>) (heap demo_world 0) \<and>
   heap (trained_world 0 1 0 0) 1 = heap demo_world 1 \<and>
   max_pitch trained_composer = Some (col_max (map pitch (heap demo_world 0))) \<and>
   min_pitch trained_composer = Some (col_min (map pitch (heap demo_world 0))) \<and>
   (\<exists>l. learned trained_composer = Some l \<and> midi_df l = 0)"
  using learn_replaces_pitch[OF learn_demo] learn_demo by auto

subsection \<open>Composing\<close>

text \<open>
  C8 as stated fails. \<open>compose\<close> does not test the state of the composer and the code
  has no error of its own for a missing state. On a composer fresh from \<open>__init__\<close> the
  first statement that reads an attribute of the trained state, \<open>self.__inferenced_arr\<close>,
  raises Python's \<open>AttributeError\<close> for that attribute.
\<close>

theorem compose_untrained_counterexample:
  "fst (compose demo_ext (composer_init 1 100 10 (1 / 100000) 100 2) demo_world 8) =
     Inl (AttributeError ''_RBMAnnealing__inferenced_arr'')"
  by (simp add: compose_def composer_init_def)

text \<open>
  C8, amended. On a composer without the attributes of the trained state \<open>compose\<close>
  raises \<open>AttributeError\<close> for \<open>_RBMAnnealing__inferenced_arr\<close> before anything is
  generated: no composition is returned, and the composer and the store are as before.
  A call of \<open>learn\<close> that raises leaves the composer in that state, whatever it has
  written to the frame.
\<close>

theorem compose_untrained:
  assumes "learned c = None"
  shows "compose ext c w octave = (Inl (AttributeError ''_RBMAnnealing__inferenced_arr''), c, w) \<and>
         (\<forall>a e c1 w1. learn ext c w a = (Some e, c1, w1) \<longrightarrow>
            compose ext c1 w1 octave =
              (Inl (AttributeError ''_RBMAnnealing__inferenced_arr''), c1, w1))"
proof (intro conjI allI impI)
  show "compose ext c w octave = (Inl (AttributeError ''_RBMAnnealing__inferenced_arr''), c, w)"
    using assms by (simp add: compose_def)
next
  fix a e c1 w1
  assume "learn ext c w a = (Some e, c1, w1)"
  then have "learned c1 = None"
    using assms by (auto simp: learn_def Let_def split: sum.splits)
  then show "compose ext c1 w1 octave =
      (Inl (AttributeError ''_RBMAnnealing__inferenced_arr''), c1, w1)"
    by (simp add: compose_def)
qed

theorem compose_untrained_witness:
  "learned demo_composer = None \<and>
   compose demo_ext demo_composer demo_world 8 =
     (Inl (AttributeError ''_RBMAnnealing__inferenced_arr''), demo_composer, demo_world) \<and>
   learn demo_ext demo_composer demo_world 1 =
     (Some (ValueError ''negative dimensions are not allowed''),
      demo_composer\<lparr>max_pitch := Some None, min_pitch := Some None\<rparr>,
      demo_world\<lparr>heap := (heap demo_world)(1 := [])\<rparr>) \<and>
   compose demo_ext (demo_composer\<lparr>max_pitch := Some None, min_pitch := Some None\<rparr>)
       (demo_world\<lparr>heap := (heap demo_world)(1 := [])\<rparr>) 8 =
     (Inl (AttributeError ''_RBMAnnealing__inferenced_arr''),
      demo_composer\<lparr>max_pitch := Some None, min_pitch := Some None\<rparr>,
      demo_world\<lparr>heap := (heap demo_world)(1 := [])\<rparr>)"
proof -
  have h: "learned demo_composer = None" by (simp add: demo_composer_def composer_init_def)
  note t = compose_untrained[OF h, of demo_ext demo_world 8]
  from t have t1: "compose demo_ext demo_composer demo_world 8 =
     (Inl (AttributeError ''_RBMAnnealing__inferenced_arr''), demo_composer, demo_world)"
    by (rule conjunct1)
  from t learn_demo_fails have t2: "compose demo_ext (demo_composer\<lparr>max_pitch := Some None, min_pitch := Some None\<rparr>)
       (demo_world\<lparr>heap := (heap demo_world)(1 := [])\<rparr>) 8 =
     (Inl (AttributeError ''_RBMAnnealing__inferenced_arr''),
      demo_composer\<lparr>max_pitch := Some None, min_pitch := Some None\<rparr>,
      demo_world\<lparr>heap := (heap demo_world)(1 := [])\<rparr>)"
    by blast
  show ?thesis
    apply (intro conjI)
       apply (rule h)
      apply (rule t1)
     apply (rule learn_demo_fails)
    apply (rule t2)
    done
qed



subsection \<open>Generating candidates\<close>

lemma start_after_assign:
  assumes "length xs = length df" and "length ys = length df"
  shows "map start (assign_duration (assign_start df xs) ys) = xs"
proof -
  have "map start (assign_start df xs) = xs"
    using assms(1) unfolding assign_start_def
  proof (induction df arbitrary: xs)
    case Nil
    then show ?case by simp
  next
    case (Cons r df)
    then show ?case by (cases xs) simp_all
  qed
  moreover have "length ys = length (assign_start df xs)" using assms by simp
  ultimately show ?thesis using columns_after_assign(4) by metis
qed

lemma generate_reference_start:
  assumes "generate ext w a octave = (Inr df, w')"
  shows "map start (heap w' a) =
           map2 cell_add (map start (heap w a))
             (np_normal (normal_z ext) (drawn w) (Some (1 / 100)) (Some (1 / 100)) (length (heap w a)))"
  using assms
  by (subst (asm) generate_run) (auto simp: Let_def start_after_assign split: list.splits if_splits)

text \<open>
  C3. \<open>__generate\<close> adds the jitter to the arrays behind the start and duration columns of
  the stored reference frame, in place. After one generation from the trained state the
  reference frame holds the jittered start times and durations, so the next generation
  starts from other values than the first.
\<close>

theorem generate_overwrites_reference:
  "map start (heap (trained_world 0 1 0 0) 0) = [Some 0, Some 1] \<and>
   map duration (heap (trained_world 0 1 0 0) 0) = [Some 1, Some 1] \<and>
   map start (heap (snd (generate demo_ext (trained_world 0 1 0 0) 0 8)) 0) =
     [Some (1 / 100), Some (101 / 100)] \<and>
   map duration (heap (snd (generate demo_ext (trained_world 0 1 0 0) 0 8)) 0) =
     [Some (101 / 100), Some (101 / 100)]"
  by (simp add: generate_demo_1) (simp add: trained_world_def reference_frame_def)

text \<open>
  C4. Only durations below zero are replaced; a duration that the jitter brings to exactly
  zero stays. With a first note of length 0.01 and a jitter of -0.01 the candidate has a
  note of duration zero.
\<close>

theorem generate_keeps_zero_duration:
  "fst (generate low_draw_ext short_note_world 0 8) =
     Inr [\<lparr>pitch = Some 0, start = Some 0, end_t = Some 0, duration = Some 0,
            velocity = Some 64, extra = [(''origin_pitch'', Some 96)]\<rparr>,
          \<lparr>pitch = Some 1, start = Some 1, end_t = Some (151 / 100), duration = Some (51 / 100),
            velocity = Some 64, extra = [(''origin_pitch'', Some 97)]\<rparr>]"
  apply (subst generate_run)
  apply (simp add: low_draw_ext_def short_note_world_def demo_defs cell_defs frame_defs Let_def
      del: not_None_eq)
  done


subsection \<open>Usable rows\<close>



























subsection \<open>The windowless run, evaluated\<close>

lemma unstarted_defs [simp]:
  "heap (unstarted_world p1 p2 d n k) 0 = unstarted_frame p1 p2 d"
  "drawn (unstarted_world p1 p2 d n k) = n"
  "tt_calls (unstarted_world p1 p2 d n k) = k"
  by (simp_all add: unstarted_world_def)








subsection \<open>Candidates without usable rows\<close>




section \<open>Properties of the bar noise sampler\<close>

subsection \<open>One position, one channel, the loops\<close>

lemma set_bits_result:
  assumes "set_bits lo hi rs arr = Inr arr'"
  shows "length arr' = length arr \<and>
         (\<forall>j<length arr. arr' ! j =
            (if \<exists>r\<in>set rs. note_pitch r < hi - 1 \<and> py_index (length arr) (note_pitch r - lo) = Inr j
             then 1 else arr ! j))"
  using assms
proof (induction rs arbitrary: arr)
  case Nil
  then show ?case by simp
next
  case (Cons r rs)
  show ?case
  proof (cases "note_pitch r < hi - 1")
    case False
    with Cons show ?thesis by auto
  next
    case True
    with Cons.prems obtain k where k: "py_index (length arr) (note_pitch r - lo) = Inr k"
      and rest: "set_bits lo hi rs (arr[k := 1]) = Inr arr'"
      by (auto split: sum.splits)
    from Cons.IH[OF rest] have len: "length arr' = length arr"
      and bits: "\<And>j. j < length arr \<Longrightarrow> arr' ! j =
            (if \<exists>r\<in>set rs. note_pitch r < hi - 1 \<and> py_index (length arr) (note_pitch r - lo) = Inr j
             then 1 else arr[k := 1] ! j)"
      by auto
    have kl: "k < length arr" using k by (rule py_index_range)
    show ?thesis
    proof (intro conjI allI impI)
      show "length arr' = length arr" by (rule len)
    next
      fix j assume j: "j < length arr"
      show "arr' ! j =
            (if \<exists>r\<in>set (r # rs). note_pitch r < hi - 1 \<and> py_index (length arr) (note_pitch r - lo) = Inr j
             then 1 else arr ! j)"
        using bits[OF j] True k kl j by (cases "j = k") auto
    qed
  qed
qed

lemma collect_result:
  assumes "collect xs = Inr ys"
  shows "length ys = length xs \<and> (\<forall>k<length xs. xs ! k = Inr (ys ! k))"
  using assms
proof (induction xs arbitrary: ys)
  case Nil
  then show ?case by simp
next
  case (Cons x xs)
  then obtain y ys' where x: "x = Inr y" and r: "collect xs = Inr ys'" and ys: "ys = y # ys'"
    by (auto split: sum.splits)
  from Cons.IH[OF r] show ?case
    by (auto simp: x ys nth_Cons split: nat.splits)
qed

lemma convert_into_feature_result:
  assumes "convert_into_feature s df = Inr v"
  shows "length v = nat (dim s) \<and>
         (\<forall>j<nat (dim s). v ! j =
            (if \<exists>r\<in>set df. note_pitch r < bar_noise_sampler.max_pitch s - 1 \<and>
                   py_index (nat (dim s)) (note_pitch r - bar_noise_sampler.min_pitch s) = Inr j
             then 1 else 0))"
  using set_bits_result[OF assms[unfolded convert_into_feature_def]] by auto

lemma set_bar_rows: "set (bar_rows s df row q) = {r \<in> set df. sounding_through s row q r}"
  by (auto simp: bar_rows_def sounding_through_def)

lemma offset_nonempty:
  assumes "df \<noteq> []"
  shows "\<exists>row. offset s src st df = Inr row"
  using assms by (cases df) (simp_all add: offset_def column_min_def column_max_def Let_def)

lemma generate_channel_result:
  assumes "generate_channel s src st program_key = (Inr c, st')"
  shows "midi_df_list s \<noteq> [] \<and> length c = seq_len s \<and>
         (\<forall>v\<in>set c. length v = nat (dim s)) \<and>
         (let df = selected_table s src st program_key
          in if length df < seq_len s
             then (\<forall>q<seq_len s. \<forall>j<nat (dim s). c ! q ! j = 0)
             else (\<exists>row. offset s src (st\<lparr>int_pos := int_pos st + 1\<rparr>) df = Inr row \<and>
                    (\<forall>q<seq_len s. \<forall>j<nat (dim s). c ! q ! j = slot_bit s df row q j)))"
proof (cases "length (selected_table s src st program_key) < seq_len s")
  case True
  with assms show ?thesis
    by (auto simp: generate_channel_def Let_def split: if_splits)
next
  case False
  define df where "df = selected_table s src st program_key"
  from assms False obtain row where ne: "midi_df_list s \<noteq> []"
    and row: "offset s src (st\<lparr>int_pos := int_pos st + 1\<rparr>) df = Inr row"
    and col: "collect (map (\<lambda>q. convert_into_feature s (bar_rows s df row q)) [0 ..< seq_len s]) = Inr c"
    by (auto simp: generate_channel_def Let_def df_def split: if_splits sum.splits)
  from collect_result[OF col] have len: "length c = seq_len s"
    and each: "\<And>q. q < seq_len s \<Longrightarrow> convert_into_feature s (bar_rows s df row q) = Inr (c ! q)"
    by auto
  have v: "length (c ! q) = nat (dim s) \<and>
           (\<forall>j<nat (dim s). c ! q ! j = slot_bit s df row q j)" if "q < seq_len s" for q
    using convert_into_feature_result[OF each[OF that]]
    by (auto simp: slot_bit_def set_bar_rows)
  have "\<forall>v\<in>set c. length v = nat (dim s)"
    using v len by (auto simp: in_set_conv_nth)
  moreover have "\<exists>row. offset s src (st\<lparr>int_pos := int_pos st + 1\<rparr>) df = Inr row \<and>
                    (\<forall>q<seq_len s. \<forall>j<nat (dim s). c ! q ! j = slot_bit s df row q j)"
    using row v by blast
  ultimately show ?thesis
    using ne len False unfolding df_def by (simp add: Let_def)
qed

lemma generate_channel_int_pos:
  assumes "generate_channel s src st program_key = (Inr c, st')"
  shows "int_pos st' = int_pos st + 1"
  using assms by (auto simp: generate_channel_def Let_def split: if_splits sum.splits)

lemma generate_channels_result:
  assumes "generate_channels s src st keys = (Inr cs, st')"
  shows "length cs = length keys \<and> int_pos st' = int_pos st + length keys \<and>
         (\<forall>i<length keys. \<exists>st1 st2. int_pos st1 = int_pos st + i \<and>
             generate_channel s src st1 (keys ! i) = (Inr (cs ! i), st2))"
  using assms
proof (induction keys arbitrary: st cs)
  case Nil
  then show ?case by simp
next
  case (Cons k keys)
  from Cons.prems obtain c st1 cs' where
    c: "generate_channel s src st k = (Inr c, st1)" and
    r: "generate_channels s src st1 keys = (Inr cs', st')" and cs: "cs = c # cs'"
    by (auto split: prod.splits sum.splits)
  have p1: "int_pos st1 = int_pos st + 1" using c by (rule generate_channel_int_pos)
  from Cons.IH[OF r] have len: "length cs' = length keys"
    and pos: "int_pos st' = int_pos st1 + length keys"
    and each: "\<And>i. i < length keys \<Longrightarrow>
        \<exists>sa sb. int_pos sa = int_pos st1 + i \<and>
           generate_channel s src sa (keys ! i) = (Inr (cs' ! i), sb)"
    by auto
  show ?case
  proof (intro conjI allI impI)
    show "length cs = length (k # keys)" by (simp add: cs len)
  next
    show "int_pos st' = int_pos st + length (k # keys)" by (simp add: pos p1)
  next
    fix i assume i: "i < length (k # keys)"
    show "\<exists>sa sb. int_pos sa = int_pos st + i \<and>
            generate_channel s src sa ((k # keys) ! i) = (Inr (cs ! i), sb)"
    proof (cases i)
      case 0
      then show ?thesis using c by (auto simp: cs)
    next
      case (Suc m)
      with i have "m < length keys" by simp
      from each[OF this] show ?thesis by (auto simp: Suc cs p1)
    qed
  qed
qed

lemma generate_batches_result:
  assumes "generate_batches s src st n = (Inr bs, st')"
  shows "length bs = n \<and> int_pos st' = int_pos st + n * length (program_list s) \<and>
         (\<forall>b<n. \<exists>st1 st2. int_pos st1 = int_pos st + b * length (program_list s) \<and>
             generate_channels s src st1 (program_list s) = (Inr (bs ! b), st2))"
  using assms
proof (induction n arbitrary: st bs)
  case 0
  then show ?case by simp
next
  case (Suc n)
  from Suc.prems obtain b st1 bs' where
    b: "generate_channels s src st (program_list s) = (Inr b, st1)" and
    r: "generate_batches s src st1 n = (Inr bs', st')" and bs: "bs = b # bs'"
    by (auto split: prod.splits sum.splits)
  have p1: "int_pos st1 = int_pos st + length (program_list s)"
    using generate_channels_result[OF b] by simp
  from Suc.IH[OF r] have len: "length bs' = n"
    and pos: "int_pos st' = int_pos st1 + n * length (program_list s)"
    and each: "\<And>k. k < n \<Longrightarrow>
        \<exists>sa sb. int_pos sa = int_pos st1 + k * length (program_list s) \<and>
           generate_channels s src sa (program_list s) = (Inr (bs' ! k), sb)"
    by auto
  show ?case
  proof (intro conjI allI impI)
    show "length bs = Suc n" by (simp add: bs len)
  next
    show "int_pos st' = int_pos st + Suc n * length (program_list s)" by (simp add: pos p1)
  next
    fix k assume k: "k < Suc n"
    show "\<exists>sa sb. int_pos sa = int_pos st + k * length (program_list s) \<and>
            generate_channels s src sa (program_list s) = (Inr (bs ! k), sb)"
    proof (cases k)
      case 0
      then show ?thesis using b by (auto simp: bs)
    next
      case (Suc m)
      with k have "m < n" by simp
      from each[OF this] show ?thesis by (fastforce simp: Suc bs p1 add.assoc)
    qed
  qed
qed


lemma bar_generate_slot:
  assumes "bar_generate s src st = (Inr out, st')"
    and "b < bar_noise_sampler.batch_size s" and "i < length (program_list s)"
  shows "\<exists>st1. int_pos st1 = int_pos st + b * length (program_list s) + i \<and>
           midi_df_list s \<noteq> [] \<and>
           (let df = selected_table s src st1 (program_list s ! i)
            in if length df < seq_len s
               then (\<forall>q<seq_len s. \<forall>j<nat (dim s). out ! b ! i ! q ! j = 0)
               else (\<exists>row. offset s src (st1\<lparr>int_pos := int_pos st1 + 1\<rparr>) df = Inr row \<and>
                      (\<forall>q<seq_len s. \<forall>j<nat (dim s).
                         out ! b ! i ! q ! j = slot_bit s df row q j)))"
proof -
  from assms(1) have g: "generate_batches s src st (bar_noise_sampler.batch_size s) = (Inr out, st')"
    by (simp add: bar_generate_def split: if_splits)
  from generate_batches_result[OF g] assms(2) obtain sa sb where
    pa: "int_pos sa = int_pos st + b * length (program_list s)" and
    ch: "generate_channels s src sa (program_list s) = (Inr (out ! b), sb)" by blast
  from generate_channels_result[OF ch] assms(3) obtain st1 st2 where
    p1: "int_pos st1 = int_pos sa + i" and
    c: "generate_channel s src st1 (program_list s ! i) = (Inr (out ! b ! i), st2)" by blast
  from generate_channel_result[OF c] p1 pa show ?thesis
    by (intro exI[of _ st1]) simp
qed

lemma py_index_position:
  assumes "0 \<le> k" and "j < n"
  shows "py_index n k = Inr j \<longleftrightarrow> k = int j"
  using assms by (auto simp: py_index_def)

lemma slot_bit_in_range:
  assumes "\<forall>r\<in>set df. bar_noise_sampler.min_pitch s \<le> note_pitch r" and "j < nat (dim s)"
  shows "slot_bit s df row q j =
           (if \<exists>r\<in>set df.
                 note_start r < row + real q * time_fraction s \<and>
                 row + (real q + 1) * time_fraction s < note_end r \<and>
                 note_pitch r < bar_noise_sampler.max_pitch s - 1 \<and>
                 note_pitch r - bar_noise_sampler.min_pitch s = int j
            then 1 else 0)"
proof -
  have "py_index (nat (dim s)) (note_pitch r - bar_noise_sampler.min_pitch s) = Inr j \<longleftrightarrow>
        note_pitch r - bar_noise_sampler.min_pitch s = int j" if "r \<in> set df" for r
    using that assms by (intro py_index_position) auto
  then show ?thesis
    unfolding slot_bit_def sounding_through_def by (auto simp del: of_nat_eq_iff)
qed

lemma selected_table_subset:
  assumes "midi_df_list s \<noteq> []" and "r \<in> set (selected_table s src st k)"
  shows "\<exists>t\<in>set (midi_df_list s). r \<in> set t"
proof -
  have "midi_df_list s ! (randint_draw src (int_pos st) mod length (midi_df_list s)) \<in> set (midi_df_list s)"
    using assms(1) by simp
  with assms(2) show ?thesis by (auto simp: selected_table_def)
qed


subsection \<open>The small samplers, evaluated\<close>

lemmas bar_defs = long_note_def inner_note_def bar_demo_sampler_def bar_demo_source_def
  bar_demo_state_def init_def bar_generate_def generate_channel_def selected_table_def offset_def
  bar_rows_def convert_into_feature_def column_min_def column_max_def py_index_def
  deep_note_def low_note_def other_note_def half_source_def

lemma bar_demo_sampler_fields:
  "bar_demo_sampler =
     \<lparr>midi_df_list = [[long_note, inner_note]], batch_size = 1, seq_len = 2, channel = 1,
      program_list = [0], time_fraction = 1 / 10, min_pitch = 60, max_pitch = 64, dim = 4\<rparr>"
  by (simp add: bar_demo_sampler_def init_def long_note_def inner_note_def)

lemma bar_generate_demo:
  "bar_generate bar_demo_sampler bar_demo_source bar_demo_state =
     (Inr [[[[0, 0, 0, 0], [1, 0, 0, 0]]]], \<lparr>int_pos = 1, uni_pos = 1\<rparr>)"
  apply (simp add: bar_demo_sampler_fields)
  apply (simp add: bar_defs Let_def eval_nat_numeral)
  done

lemma bar_generate_deep:
  "bar_generate (init [[deep_note]] 1 1 (1 / 10) 60 64) half_source bar_demo_state =
     (Inr [[[[0, 0, 1, 0]]]], \<lparr>int_pos = 1, uni_pos = 1\<rparr>)"
  apply (simp add: bar_defs Let_def)
  apply (simp add: eval_nat_numeral)
  done

lemma bar_generate_low:
  "fst (bar_generate (init [[low_note]] 1 1 (1 / 10) 60 64) half_source bar_demo_state) =
     Inl (IndexError ''index out of range'')"
  by (simp add: bar_defs Let_def eval_nat_numeral)

lemma bar_generate_reversed:
  "fst (bar_generate (init [[long_note]] 1 1 (1 / 10) 64 60) bar_demo_source bar_demo_state) =
     Inl (ValueError ''negative dimensions are not allowed'')"
  by (simp add: bar_defs Let_def)

lemma bar_generate_no_rows:
  "fst (bar_generate (init [[long_note], [other_note]] 1 0 (1 / 10) 60 64) bar_demo_source
          bar_demo_state) =
     Inl (OverflowError ''Range exceeds valid bounds'')"
  by (simp add: bar_defs Let_def eval_nat_numeral)

subsection \<open>Which bits are set\<close>

text \<open>
  C2 as stated fails. With an offset of 0 and a width of 0.1 the second sub-interval is
  \<open>[0.1, 0.2)\<close>. The short note (pitch 62, from 0.12 to 0.18) lies inside it and its bit,
  index 2, is 0; the long note (pitch 60, from 0 to 1) does not lie inside it and its bit,
  index 0, is 1. The index \<open>pitch - min_pitch\<close> is a position of the pitch vector only
  from \<open>min_pitch\<close> on: a table that holds nothing but a note of pitch 58, two below
  \<open>min_pitch\<close>, gets the bit at index 2.
\<close>

theorem bar_generate_inside_counterexample:
  "fst (bar_generate bar_demo_sampler bar_demo_source bar_demo_state) =
     Inr [[[[0, 0, 0, 0], [1, 0, 0, 0]]]] \<and>
   selected_table bar_demo_sampler bar_demo_source bar_demo_state 0 = [long_note, inner_note] \<and>
   offset bar_demo_sampler bar_demo_source \<lparr>int_pos = 1, uni_pos = 0\<rparr> [long_note, inner_note] =
     Inr 0 \<and>
   inside_sub_interval bar_demo_sampler 0 1 inner_note \<and>
   note_pitch inner_note < bar_noise_sampler.max_pitch bar_demo_sampler - 1 \<and>
   note_pitch inner_note - bar_noise_sampler.min_pitch bar_demo_sampler = 2 \<and>
   \<not> inside_sub_interval bar_demo_sampler 0 1 long_note \<and>
   note_pitch long_note - bar_noise_sampler.min_pitch bar_demo_sampler = 0 \<and>
   fst (bar_generate (init [[deep_note]] 1 1 (1 / 10) 60 64) half_source bar_demo_state) =
     Inr [[[[0, 0, 1, 0]]]] \<and>
   note_pitch deep_note - 60 = - 2"
proof -
  have deep: "fst (bar_generate (init [[deep_note]] 1 1 (1 / 10) 60 64) half_source bar_demo_state) =
      Inr [[[[0, 0, 1, 0]]]]"
    by (subst bar_generate_deep) simp
  have pitch: "note_pitch deep_note - 60 = - 2"
    by (simp add: deep_note_def)
  have inside: "fst (bar_generate bar_demo_sampler bar_demo_source bar_demo_state) =
       Inr [[[[0, 0, 0, 0], [1, 0, 0, 0]]]] \<and>
     selected_table bar_demo_sampler bar_demo_source bar_demo_state 0 = [long_note, inner_note] \<and>
     offset bar_demo_sampler bar_demo_source \<lparr>int_pos = 1, uni_pos = 0\<rparr> [long_note, inner_note] =
       Inr 0 \<and>
     inside_sub_interval bar_demo_sampler 0 1 inner_note \<and>
     note_pitch inner_note < bar_noise_sampler.max_pitch bar_demo_sampler - 1 \<and>
     note_pitch inner_note - bar_noise_sampler.min_pitch bar_demo_sampler = 2 \<and>
     \<not> inside_sub_interval bar_demo_sampler 0 1 long_note \<and>
     note_pitch long_note - bar_noise_sampler.min_pitch bar_demo_sampler = 0"
    apply (simp add: bar_generate_demo)
    apply (simp add: bar_demo_sampler_fields)
    apply (simp add: bar_defs inside_sub_interval_def)
    done
  from inside deep pitch show ?thesis by (simp only: simp_thms)
qed

text \<open>
  C2, amended. The tables hold no pitch below \<open>min_pitch\<close>. For every call that returns,
  every batch slot \<open>b\<close> and every channel \<open>i\<close>: the table is the one selected by the
  integer draw number \<open>b * channels + i\<close> of the call, filtered to the channel's program.
  When it has fewer rows than \<open>seq_len\<close> the channel is zero. Otherwise an offset is
  drawn and, at position \<open>q\<close>, the bit at index \<open>j\<close> is 1 exactly when some note of
  that table starts before \<open>offset + q * time_fraction\<close>, ends after
  \<open>offset + (q + 1) * time_fraction\<close>, has a pitch below \<open>max_pitch - 1\<close> and has
  \<open>pitch - min_pitch = j\<close>.
\<close>

theorem bar_generate_bits:
  assumes "bar_generate s src st = (Inr out, st')"
    and "b < bar_noise_sampler.batch_size s" and "i < length (program_list s)"
    and "\<forall>t\<in>set (midi_df_list s). \<forall>r\<in>set t. bar_noise_sampler.min_pitch s \<le> note_pitch r"
  shows "\<exists>st1. int_pos st1 = int_pos st + b * length (program_list s) + i \<and>
           (let df = selected_table s src st1 (program_list s ! i)
            in if length df < seq_len s
               then (\<forall>q<seq_len s. \<forall>j<nat (dim s). out ! b ! i ! q ! j = 0)
               else (\<exists>row. offset s src (st1\<lparr>int_pos := int_pos st1 + 1\<rparr>) df = Inr row \<and>
                      (\<forall>q<seq_len s. \<forall>j<nat (dim s).
                         out ! b ! i ! q ! j =
                           (if \<exists>r\<in>set df.
                                 note_start r < row + real q * time_fraction s \<and>
                                 row + (real q + 1) * time_fraction s < note_end r \<and>
                                 note_pitch r < bar_noise_sampler.max_pitch s - 1 \<and>
                                 note_pitch r - bar_noise_sampler.min_pitch s = int j
                            then 1 else 0))))"
proof -
  from bar_generate_slot[OF assms(1-3)] obtain st1 where
    pos: "int_pos st1 = int_pos st + b * length (program_list s) + i" and
    ne: "midi_df_list s \<noteq> []" and
    slot: "let df = selected_table s src st1 (program_list s ! i)
            in if length df < seq_len s
               then (\<forall>q<seq_len s. \<forall>j<nat (dim s). out ! b ! i ! q ! j = 0)
               else (\<exists>row. offset s src (st1\<lparr>int_pos := int_pos st1 + 1\<rparr>) df = Inr row \<and>
                      (\<forall>q<seq_len s. \<forall>j<nat (dim s).
                         out ! b ! i ! q ! j = slot_bit s df row q j))"
    by blast
  have low: "\<forall>r\<in>set (selected_table s src st1 (program_list s ! i)).
               bar_noise_sampler.min_pitch s \<le> note_pitch r"
    using selected_table_subset[OF ne] assms(4) by blast
  define df where "df = selected_table s src st1 (program_list s ! i)"
  have "if length df < seq_len s
        then (\<forall>q<seq_len s. \<forall>j<nat (dim s). out ! b ! i ! q ! j = 0)
        else (\<exists>row. offset s src (st1\<lparr>int_pos := int_pos st1 + 1\<rparr>) df = Inr row \<and>
               (\<forall>q<seq_len s. \<forall>j<nat (dim s).
                  out ! b ! i ! q ! j =
                    (if \<exists>r\<in>set df.
                          note_start r < row + real q * time_fraction s \<and>
                          row + (real q + 1) * time_fraction s < note_end r \<and>
                          note_pitch r < bar_noise_sampler.max_pitch s - 1 \<and>
                          note_pitch r - bar_noise_sampler.min_pitch s = int j
                     then 1 else 0)))"
  proof (cases "length df < seq_len s")
    case True
    with slot show ?thesis by (simp add: Let_def df_def)
  next
    case False
    with slot obtain row where
      row: "offset s src (st1\<lparr>int_pos := int_pos st1 + 1\<rparr>) df = Inr row" and
      bits: "\<And>q j. q < seq_len s \<Longrightarrow> j < nat (dim s) \<Longrightarrow>
               out ! b ! i ! q ! j = slot_bit s df row q j"
      by (auto simp: Let_def df_def)
    have "\<forall>q<seq_len s. \<forall>j<nat (dim s).
            out ! b ! i ! q ! j =
              (if \<exists>r\<in>set df.
                    note_start r < row + real q * time_fraction s \<and>
                    row + (real q + 1) * time_fraction s < note_end r \<and>
                    note_pitch r < bar_noise_sampler.max_pitch s - 1 \<and>
                    note_pitch r - bar_noise_sampler.min_pitch s = int j
               then 1 else 0)"
    proof (intro allI impI)
      fix q j assume "q < seq_len s" "j < nat (dim s)"
      then show "out ! b ! i ! q ! j =
              (if \<exists>r\<in>set df.
                    note_start r < row + real q * time_fraction s \<and>
                    row + (real q + 1) * time_fraction s < note_end r \<and>
                    note_pitch r < bar_noise_sampler.max_pitch s - 1 \<and>
                    note_pitch r - bar_noise_sampler.min_pitch s = int j
               then 1 else 0)"
        using bits[of q j] slot_bit_in_range[OF low[folded df_def], of j row q] by simp
    qed
    with row have "\<exists>row. offset s src (st1\<lparr>int_pos := int_pos st1 + 1\<rparr>) df = Inr row \<and>
               (\<forall>q<seq_len s. \<forall>j<nat (dim s).
                  out ! b ! i ! q ! j =
                    (if \<exists>r\<in>set df.
                          note_start r < row + real q * time_fraction s \<and>
                          row + (real q + 1) * time_fraction s < note_end r \<and>
                          note_pitch r < bar_noise_sampler.max_pitch s - 1 \<and>
                          note_pitch r - bar_noise_sampler.min_pitch s = int j
                     then 1 else 0))"
      by blast
    with False show ?thesis by (simp only: if_False)
  qed
  with pos show ?thesis
    unfolding df_def Let_def by (intro exI[of _ st1] conjI)
qed

theorem bar_generate_bits_witness:
  "bar_generate bar_demo_sampler bar_demo_source bar_demo_state =
     (Inr [[[[0, 0, 0, 0], [1, 0, 0, 0]]]], \<lparr>int_pos = 1, uni_pos = 1\<rparr>) \<and>
   0 < bar_noise_sampler.batch_size bar_demo_sampler \<and>
   0 < length (program_list bar_demo_sampler) \<and>
   list_all (list_all (\<lambda>r. bar_noise_sampler.min_pitch bar_demo_sampler \<le> note_pitch r))
     (midi_df_list bar_demo_sampler) \<and>
   (\<exists>st1. int_pos st1 = int_pos bar_demo_state + 0 * length (program_list bar_demo_sampler) + 0 \<and>
      (let df = selected_table bar_demo_sampler bar_demo_source st1 (program_list bar_demo_sampler ! 0)
       in if length df < seq_len bar_demo_sampler
          then (\<forall>q<seq_len bar_demo_sampler. \<forall>j<nat (dim bar_demo_sampler).
                  [[[[0, 0, 0, 0], [1, 0, 0, 0 :: real]]]] ! 0 ! 0 ! q ! j = 0)
          else (\<exists>row. offset bar_demo_sampler bar_demo_source (st1\<lparr>int_pos := int_pos st1 + 1\<rparr>) df
                         = Inr row \<and>
                 (\<forall>q<seq_len bar_demo_sampler. \<forall>j<nat (dim bar_demo_sampler).
                    [[[[0, 0, 0, 0], [1, 0, 0, 0 :: real]]]] ! 0 ! 0 ! q ! j =
                      (if \<exists>r\<in>set df.
                            note_start r < row + real q * time_fraction bar_demo_sampler \<and>
                            row + (real q + 1) * time_fraction bar_demo_sampler < note_end r \<and>
                            note_pitch r < bar_noise_sampler.max_pitch bar_demo_sampler - 1 \<and>
                            note_pitch r - bar_noise_sampler.min_pitch bar_demo_sampler = int j
                       then 1 else 0)))))"
proof -
  have h2: "0 < bar_noise_sampler.batch_size bar_demo_sampler"
    and h3: "0 < length (program_list bar_demo_sampler)"
    and h4': "list_all (list_all (\<lambda>r. bar_noise_sampler.min_pitch bar_demo_sampler \<le> note_pitch r))
               (midi_df_list bar_demo_sampler)"
    by (simp_all add: bar_demo_sampler_fields long_note_def inner_note_def)
  from h4' have h4: "\<forall>t\<in>set (midi_df_list bar_demo_sampler). \<forall>r\<in>set t.
      bar_noise_sampler.min_pitch bar_demo_sampler \<le> note_pitch r"
    by (simp add: list_all_iff)
  note bits = bar_generate_bits[OF bar_generate_demo h2 h3 h4]
  show ?thesis
    apply (intro conjI)
        apply (rule bar_generate_demo)
       apply (rule h2)
      apply (rule h3)
     apply (rule h4')
    apply (rule bits)
    done
qed

subsection \<open>Shape of the output\<close>

lemma slot_bit_binary: "slot_bit s df row q j = 0 \<or> slot_bit s df row q j = 1"
  by (simp add: slot_bit_def)

lemma generate_channel_shape:
  assumes "generate_channel s src st k = (Inr c, st')"
  shows "length c = seq_len s \<and>
         list_all (\<lambda>v. length v = nat (dim s) \<and> list_all (\<lambda>e. e = 0 \<or> e = 1) v) c"
proof -
  note r = generate_channel_result[OF assms]
  from r have len: "length c = seq_len s" and lv: "\<forall>v\<in>set c. length v = nat (dim s)" by auto
  have bin: "c ! q ! j = 0 \<or> c ! q ! j = 1" if "q < seq_len s" "j < nat (dim s)" for q j
  proof (cases "length (selected_table s src st k) < seq_len s")
    case True
    with r that show ?thesis by (simp add: Let_def)
  next
    case False
    with r obtain row where
      "\<forall>q<seq_len s. \<forall>j<nat (dim s). c ! q ! j = slot_bit s (selected_table s src st k) row q j"
      by (auto simp: Let_def)
    with that slot_bit_binary show ?thesis by auto
  qed
  have "e = 0 \<or> e = 1" if "v \<in> set c" "e \<in> set v" for v e
  proof -
    from that(1) obtain q where q: "q < length c" "v = c ! q" by (auto simp: in_set_conv_nth)
    from that(2) obtain j where j: "j < length v" "e = v ! j" by (auto simp: in_set_conv_nth)
    have "j < nat (dim s)" using j(1) lv that(1) by auto
    with bin[of q j] q len show ?thesis by (simp add: j)
  qed
  with len lv show ?thesis by (auto simp: list_all_iff)
qed

lemma returned_tensor_shape:
  assumes "bar_generate s src st = (Inr out, st')"
  shows "bar_tensor out (bar_noise_sampler.batch_size s) (length (program_list s)) (seq_len s)
           (nat (dim s))"
proof -
  from assms have g: "generate_batches s src st (bar_noise_sampler.batch_size s) = (Inr out, st')"
    by (simp add: bar_generate_def split: if_splits)
  note B = generate_batches_result[OF g]
  have "length x = length (program_list s) \<and>
        list_all (\<lambda>y. length y = seq_len s \<and>
          list_all (\<lambda>v. length v = nat (dim s) \<and> list_all (\<lambda>e. e = 0 \<or> e = 1) v) y) x"
    if "x \<in> set out" for x
  proof -
    from that obtain b where b: "b < length out" "x = out ! b" by (auto simp: in_set_conv_nth)
    with B obtain sa sb where
      ch: "generate_channels s src sa (program_list s) = (Inr x, sb)" by auto
    note C = generate_channels_result[OF ch]
    have "length y = seq_len s \<and>
          list_all (\<lambda>v. length v = nat (dim s) \<and> list_all (\<lambda>e. e = 0 \<or> e = 1) v) y"
      if "y \<in> set x" for y
    proof -
      from that obtain i where i: "i < length x" "y = x ! i" by (auto simp: in_set_conv_nth)
      with C obtain s1 s2 where "generate_channel s src s1 (program_list s ! i) = (Inr y, s2)"
        by auto
      then show ?thesis by (rule generate_channel_shape)
    qed
    with C show ?thesis by (auto simp: list_all_iff)
  qed
  with B show ?thesis by (auto simp: bar_tensor_def list_all_iff)
qed

lemma py_index_total: "- int n \<le> i \<Longrightarrow> i < int n \<Longrightarrow> \<exists>k. py_index n i = Inr k"
  by (auto simp: py_index_def)

lemma set_bits_total:
  assumes "\<forall>r\<in>set rs. note_pitch r < hi - 1 \<longrightarrow>
             - int (length arr) \<le> note_pitch r - lo \<and> note_pitch r - lo < int (length arr)"
  shows "\<exists>arr'. set_bits lo hi rs arr = Inr arr'"
  using assms
proof (induction rs arbitrary: arr)
  case Nil
  then show ?case by simp
next
  case (Cons r rs)
  show ?case
  proof (cases "note_pitch r < hi - 1")
    case False
    with Cons show ?thesis by simp
  next
    case True
    with Cons.prems have "- int (length arr) \<le> note_pitch r - lo"
      and "note_pitch r - lo < int (length arr)" by auto
    then obtain k where k: "py_index (length arr) (note_pitch r - lo) = Inr k"
      using py_index_total by blast
    have "\<exists>arr'. set_bits lo hi rs (arr[k := 1]) = Inr arr'"
      by (rule Cons.IH) (use Cons.prems in simp)
    with True k show ?thesis by simp
  qed
qed

lemma collect_total:
  assumes "\<forall>x\<in>set xs. \<exists>y. x = Inr y"
  shows "\<exists>ys. collect xs = Inr ys"
  using assms by (induction xs) auto


lemma generate_channel_total:
  assumes "indexable s" and "midi_df_list s \<noteq> []"
  shows "\<exists>c st'. generate_channel s src st k = (Inr c, st')"
proof -
  define df where "df = selected_table s src st k"
  have sub: "set df \<subseteq> set (midi_df_list s ! (randint_draw src (int_pos st) mod length (midi_df_list s)))"
    by (auto simp: df_def selected_table_def)
  have "midi_df_list s ! (randint_draw src (int_pos st) mod length (midi_df_list s)) \<in> set (midi_df_list s)"
    using assms(2) by simp
  with sub assms(1) have ok: "\<forall>r\<in>set df. note_pitch r < bar_noise_sampler.max_pitch s - 1 \<longrightarrow>
        2 * bar_noise_sampler.min_pitch s - bar_noise_sampler.max_pitch s \<le> note_pitch r"
    unfolding indexable_def by blast
  have conv: "\<exists>v. convert_into_feature s (bar_rows s df row q) = Inr v" for row q
    unfolding convert_into_feature_def
  proof (rule set_bits_total, intro ballI impI)
    fix r assume r: "r \<in> set (bar_rows s df row q)"
      and p: "note_pitch r < bar_noise_sampler.max_pitch s - 1"
    from r have "r \<in> set df" by (simp add: set_bar_rows)
    with ok p have "2 * bar_noise_sampler.min_pitch s - bar_noise_sampler.max_pitch s \<le> note_pitch r"
      by blast
    with p assms(1) show "- int (length (replicate (nat (dim s)) (0::real)))
             \<le> note_pitch r - bar_noise_sampler.min_pitch s \<and>
          note_pitch r - bar_noise_sampler.min_pitch s < int (length (replicate (nat (dim s)) (0::real)))"
      by (simp add: indexable_def)
  qed
  have col: "\<exists>ys. collect (map (\<lambda>q. convert_into_feature s (bar_rows s df row q)) [0 ..< seq_len s]) = Inr ys"
    for row
    by (rule collect_total) (use conv in auto)
  show ?thesis
  proof (cases "length df < seq_len s")
    case True
    then show ?thesis
      using assms(2) by (simp add: generate_channel_def Let_def df_def[symmetric])
  next
    case False
    moreover from assms(1) have "0 < seq_len s" by (simp add: indexable_def)
    ultimately have "df \<noteq> []" by auto
    from offset_nonempty[OF this] obtain row where
      "offset s src (st\<lparr>int_pos := int_pos st + 1\<rparr>) df = Inr row" by blast
    with col[of row] False show ?thesis
      using assms(2) by (auto simp: generate_channel_def Let_def df_def[symmetric])
  qed
qed

lemma generate_channels_total:
  assumes "indexable s" and "keys \<noteq> [] \<longrightarrow> midi_df_list s \<noteq> []"
  shows "\<exists>cs st'. generate_channels s src st keys = (Inr cs, st')"
  using assms(2)
proof (induction keys arbitrary: st)
  case Nil
  then show ?case by simp
next
  case (Cons k keys)
  then have ne: "midi_df_list s \<noteq> []" by simp
  from generate_channel_total[OF assms(1) ne] obtain c st1 where
    c: "generate_channel s src st k = (Inr c, st1)" by blast
  from Cons.IH[of st1] ne obtain cs st2 where "generate_channels s src st1 keys = (Inr cs, st2)"
    by blast
  with c show ?case by simp
qed

lemma generate_batches_total:
  assumes "indexable s"
  shows "\<exists>bs st'. generate_batches s src st n = (Inr bs, st')"
proof (induction n arbitrary: st)
  case 0
  then show ?case by simp
next
  case (Suc n)
  from assms have "program_list s \<noteq> [] \<longrightarrow> midi_df_list s \<noteq> []" by (simp add: indexable_def)
  from generate_channels_total[OF assms this] obtain b st1 where
    b: "generate_channels s src st (program_list s) = (Inr b, st1)" by blast
  from Suc[of st1] obtain bs st2 where "generate_batches s src st1 n = (Inr bs, st2)" by blast
  with b show ?case by simp
qed

lemma bar_generate_total:
  assumes "indexable s"
  shows "\<exists>out st'. bar_generate s src st = (Inr out, st')"
  using generate_batches_total[OF assms] assms by (simp add: bar_generate_def indexable_def)

lemma init_fields:
  "midi_df_list (init tables bs sl tf lo hi) = tables"
  "bar_noise_sampler.batch_size (init tables bs sl tf lo hi) = bs"
  "seq_len (init tables bs sl tf lo hi) = sl"
  "channel (init tables bs sl tf lo hi) = length (program_list (init tables bs sl tf lo hi))"
  "bar_noise_sampler.min_pitch (init tables bs sl tf lo hi) = lo"
  "bar_noise_sampler.max_pitch (init tables bs sl tf lo hi) = hi"
  "dim (init tables bs sl tf lo hi) = hi - lo"
  "set (program_list (init tables bs sl tf lo hi)) = (\<Union>t\<in>set tables. program ` set t)"
  "distinct (program_list (init tables bs sl tf lo hi))"
  by (auto simp: init_def Let_def)


text \<open>
  C9 as stated fails: \<open>generate\<close> does not return for every sampler. A note of pitch 55
  in a sampler with the range 60 to 64 is written at index -5 of a vector of length 4,
  which raises \<open>IndexError\<close>; with \<open>max_pitch\<close> below \<open>min_pitch\<close> the allocation of the
  output raises \<open>ValueError\<close>; and with a sequence length of zero a table without a row
  of the channel's program is not skipped, so that the offset is drawn between the NaN
  bounds of an empty column, which raises \<open>OverflowError\<close>.
\<close>

theorem bar_generate_shape_counterexample:
  "fst (bar_generate (init [[low_note]] 1 1 (1 / 10) 60 64) half_source bar_demo_state) =
     Inl (IndexError ''index out of range'') \<and>
   fst (bar_generate (init [[long_note]] 1 1 (1 / 10) 64 60) bar_demo_source bar_demo_state) =
     Inl (ValueError ''negative dimensions are not allowed'') \<and>
   fst (bar_generate (init [[long_note], [other_note]] 1 0 (1 / 10) 60 64) bar_demo_source
          bar_demo_state) =
     Inl (OverflowError ''Range exceeds valid bounds'')"
  using bar_generate_low bar_generate_reversed bar_generate_no_rows by simp

text \<open>
  C9, amended. For a sampler built by \<open>__init__\<close> with \<open>min_pitch \<le> max_pitch\<close>, a
  sequence length of at least one and pitches of at least \<open>2 * min_pitch - max_pitch\<close>,
  the channel count is the number of distinct programs of the tables, every call of
  \<open>generate\<close> returns, and the output of a call and of the call after it has shape
  (batch size, channel count, sequence length, \<open>max_pitch - min_pitch\<close>) with every
  entry 0 or 1.
\<close>

theorem bar_generate_shape:
  assumes "lo \<le> hi" and "0 < sl"
    and "\<forall>t\<in>set tables. \<forall>r\<in>set t. note_pitch r < hi - 1 \<longrightarrow> 2 * lo - hi \<le> note_pitch r"
    and "s = init tables bs sl tf lo hi"
  shows "channel s = card (\<Union>t\<in>set tables. program ` set t) \<and>
         (\<exists>out1 st1 out2 st2.
            bar_generate s src st = (Inr out1, st1) \<and> bar_generate s src st1 = (Inr out2, st2) \<and>
            bar_tensor out1 bs (channel s) sl (nat (hi - lo)) \<and>
            bar_tensor out2 bs (channel s) sl (nat (hi - lo)))"
proof -
  have ch: "channel s = length (program_list s)" by (simp add: assms(4) init_fields)
  have "distinct (program_list s)" unfolding assms(4) by (rule init_fields(9))
  then have "card (set (program_list s)) = length (program_list s)" by (rule distinct_card)
  moreover have "set (program_list s) = (\<Union>t\<in>set tables. program ` set t)"
    unfolding assms(4) by (rule init_fields(8))
  ultimately have card: "channel s = card (\<Union>t\<in>set tables. program ` set t)"
    using ch by simp
  have "program_list s \<noteq> [] \<longrightarrow> tables \<noteq> []"
    by (auto simp: assms(4) init_def Let_def)
  then have ix: "indexable s"
    using assms(1,2,3) by (simp add: indexable_def assms(4) init_fields)
  from bar_generate_total[OF ix] obtain out1 st1 where
    g1: "bar_generate s src st = (Inr out1, st1)" by blast
  from bar_generate_total[OF ix] obtain out2 st2 where
    g2: "bar_generate s src st1 = (Inr out2, st2)" by blast
  have "bar_tensor out1 bs (channel s) sl (nat (hi - lo))"
    using returned_tensor_shape[OF g1] by (simp add: ch) (simp add: assms(4) init_fields)
  moreover have "bar_tensor out2 bs (channel s) sl (nat (hi - lo))"
    using returned_tensor_shape[OF g2] by (simp add: ch) (simp add: assms(4) init_fields)
  ultimately show ?thesis using card g1 g2 by blast
qed

theorem bar_generate_shape_witness:
  "(60::int) \<le> 64 \<and> (0::nat) < 2 \<and>
   list_all (list_all (\<lambda>r. note_pitch r < 64 - 1 \<longrightarrow> 2 * 60 - 64 \<le> note_pitch r))
     [[long_note, inner_note]] \<and>
   bar_demo_sampler = init [[long_note, inner_note]] 1 2 (1 / 10) 60 64 \<and>
   channel bar_demo_sampler = card (\<Union>t\<in>set [[long_note, inner_note]]. program ` set t) \<and>
   (\<exists>out1 st1 out2 st2.
      bar_generate bar_demo_sampler bar_demo_source bar_demo_state = (Inr out1, st1) \<and>
      bar_generate bar_demo_sampler bar_demo_source st1 = (Inr out2, st2) \<and>
      bar_tensor out1 1 (channel bar_demo_sampler) 2 (nat (64 - 60)) \<and>
      bar_tensor out2 1 (channel bar_demo_sampler) 2 (nat (64 - 60)))"
proof -
  have h1: "(60::int) \<le> 64" by simp
  have h0: "(0::nat) < 2" by simp
  have h2': "list_all (list_all (\<lambda>r. note_pitch r < 64 - 1 \<longrightarrow> 2 * 60 - 64 \<le> note_pitch r))
     [[long_note, inner_note]]"
    by (simp add: long_note_def inner_note_def)
  then have h2: "\<forall>t\<in>set [[long_note, inner_note]]. \<forall>r\<in>set t.
      note_pitch r < 64 - 1 \<longrightarrow> 2 * 60 - 64 \<le> note_pitch r"
    by (simp add: list_all_iff)
  have h3: "bar_demo_sampler = init [[long_note, inner_note]] 1 2 (1 / 10) 60 64"
    by (rule bar_demo_sampler_def)
  from bar_generate_shape[OF h1 h0 h2 h3, of bar_demo_source bar_demo_state] h1 h0 h2' h3
  show ?thesis by blast
qed

end
